theory Spec2Isabelle
  imports Complex_Main "HOL-Library.Log_Nat" "HOL-Library.Code_Target_Numeral"
begin

section \<open>Capsule Telegram bot: command handlers and guided transfers\<close>

text \<open>
  The handlers of \<^verbatim>\<open>src/utils/callbacks.ts\<close> and the helpers of
  \<^verbatim>\<open>src/utils/wallet.ts\<close> are embedded as functions over an explicit world:
  the user collection, the trace of every observable effect in program order, and the
  queue of inbound text messages. Everything outside the repository (the Capsule signer,
  the chain RPC clients, the Solana key parser, viem's \<^verbatim>\<open>isAddress\<close>, the built-in
  \<^verbatim>\<open>parseFloat\<close>) is a field of an environment record, so that every theorem
  quantifies over all behaviours of the collaborators, failures included. Sending or
  editing a chat message is recorded in the trace and taken to succeed.
\<close>

subsection \<open>Errors, results and the effect monad\<close>

datatype exn = Error string

text \<open>
  An \<^verbatim>\<open>async\<close> function either returns, rejects with an error, or stays
  suspended at \<^verbatim>\<open>conversation.waitFor\<close> because no further message arrives.
\<close>

datatype 'a result = Returned 'a | Thrown exn | Suspended

record user =
  telegramId :: string
  username :: string
  evmUserShare :: string
  evmAddress :: string
  solanaUserShare :: string
  solanaAddress :: string

text \<open>A JavaScript number as far as the handlers look at it.\<close>

datatype number = NaN | NegInfinity | Finite rat | PosInfinity

datatype pubkey = PubKey nat

text \<open>The user-facing texts, one constructor per template of the source.\<close>

datatype message =
    ErrorOccurred
  | AlreadyRegistered
  | GeneratingWallets
  | FailedToCreateAccount
  | WalletsCreated
  | ErrorCreatingAccount
  | NoAccountFound
  | YourWallets string string
  | EthereumBalance rat
  | SolanaBalance "string option"
  | ErrorFetchingBalances
  | NoAccountRegisterFirst
  | ProvideEthAddress
  | InvalidEthereumAddress
  | HowMuchEth
  | SendingEth string string
  | InvalidEthAmount
  | SentEth string string string
  | FailedToSendTransaction
  | ProvideSolAddress
  | InvalidSolanaAddress
  | HowMuchSol
  | SendingSol string string
  | InvalidSolAmount
  | SentSol string string string
  | FailedToSendSolTransaction
  | ProvideFundsAddress
  | ProvideValidEthAmount
  | SentFunds string string string
  | FailedToSendFunds

datatype walletType = EVM | SOLANA

datatype dbop = Remove string | Put user

text \<open>
  Every effect a handler has on the outside, in program order: messages to the user,
  operator logs, store reads and writes, and each call into a collaborator.
\<close>

datatype event =
    Reply message
  | EditMessageText message
  | ConsoleError
  | ConsoleLog
  | FindOne string
  | Save user
  | CreateWalletPreGen walletType string
  | ClientGetBalance string
  | ConnectionGetBalance pubkey
  | GetLatestBlockhash
  | ViemSendTransaction string string string
  | SignerSendTransaction string pubkey pubkey number

text \<open>
  An inbound text message, together with what other actors did to the user collection
  while the conversation was suspended waiting for it.
\<close>

record inbound =
  meanwhile :: "dbop list"
  text_of :: string

record world =
  store :: "string \<rightharpoonup> user"
  trace :: "event list"
  inbox :: "inbound list"

type_synonym 'a prog = "world \<Rightarrow> 'a result \<times> world"

definition return :: "'a \<Rightarrow> 'a prog" where
  "return x = (\<lambda>w. (Returned x, w))"

definition throw :: "exn \<Rightarrow> 'a prog" where
  "throw e = (\<lambda>w. (Thrown e, w))"

text \<open>\<^verbatim>\<open>const x = await m; k(x)\<close>: an error or a suspension of \<open>m\<close> skips \<open>k\<close>.\<close>

definition await :: "'a prog \<Rightarrow> ('a \<Rightarrow> 'b prog) \<Rightarrow> 'b prog" where
  "await m k = (\<lambda>w. case m w of
      (Returned x, w') \<Rightarrow> k x w'
    | (Thrown e, w') \<Rightarrow> (Thrown e, w')
    | (Suspended, w') \<Rightarrow> (Suspended, w'))"

text \<open>\<^verbatim>\<open>try { m } catch (error) { h(error) }\<close>\<close>

definition try_catch :: "'a prog \<Rightarrow> (exn \<Rightarrow> 'a prog) \<Rightarrow> 'a prog" where
  "try_catch m h = (\<lambda>w. case m w of
      (Thrown e, w') \<Rightarrow> h e w'
    | r \<Rightarrow> r)"

definition emit :: "event \<Rightarrow> unit prog" where
  "emit ev = (\<lambda>w. (Returned (), w\<lparr>trace := trace w @ [ev]\<rparr>))"

text \<open>A call into a collaborator: logged, then its answer returned or thrown.\<close>

definition call :: "event \<Rightarrow> exn + 'a \<Rightarrow> 'a prog" where
  "call ev answer = await (emit ev) (\<lambda>_. case answer of Inl e \<Rightarrow> throw e | Inr x \<Rightarrow> return x)"

subsection \<open>Collaborators\<close>

record pregen =
  wallet_address :: "string option"
  share :: string

record env =
  db_error :: "exn option"
  save_error :: "user \<Rightarrow> exn option"
  DOMAIN :: string
  createWalletPreGen :: "walletType \<Rightarrow> string \<Rightarrow> exn + pregen"
  getBalance :: "string \<Rightarrow> exn + nat"
  PublicKey :: "string \<Rightarrow> exn + pubkey"
  isOnCurve :: "pubkey \<Rightarrow> bool"
  solGetBalance :: "pubkey \<Rightarrow> exn + nat"
  getLatestBlockhash :: "exn option"
  isAddress :: "string \<Rightarrow> bool"
  parseFloat :: "string \<Rightarrow> number"
  viemSendTransaction :: "string \<Rightarrow> string \<Rightarrow> string \<Rightarrow> exn + string"
  signerSendTransaction :: "string \<Rightarrow> pubkey \<Rightarrow> pubkey \<Rightarrow> number \<Rightarrow> exn + string"

text \<open>
  \<^verbatim>\<open>User.findOne({ telegramId })\<close>: rejects when the store is failing, otherwise
  resolves to the stored document or to null.
\<close>

definition findOne :: "env \<Rightarrow> string \<Rightarrow> user option prog" where
  "findOne env tid = await (emit (FindOne tid)) (\<lambda>_ w.
     case db_error env of
       Some e \<Rightarrow> (Thrown e, w)
     | None \<Rightarrow> (Returned (store w tid), w))"

text \<open>
  \<^verbatim>\<open>user.save()\<close>: rejects on a store failure, on a schema validation failure
  and on a second document with the same \<^verbatim>\<open>telegramId\<close> (the schema declares the
  field unique); otherwise the document is in the collection and the write is logged.
\<close>

definition save :: "env \<Rightarrow> user \<Rightarrow> unit prog" where
  "save env u = (\<lambda>w.
     case db_error env of
       Some e \<Rightarrow> (Thrown e, w)
     | None \<Rightarrow>
        (case save_error env u of
           Some e \<Rightarrow> (Thrown e, w)
         | None \<Rightarrow>
            if telegramId u \<in> dom (store w) then (Thrown (Error ''E11000 duplicate key''), w)
            else (Returned (), w\<lparr>store := (store w)(telegramId u \<mapsto> u),
                                  trace := trace w @ [Save u]\<rparr>)))"

definition reply :: "message \<Rightarrow> unit prog" where
  "reply m = emit (Reply m)"

definition editMessageText :: "message \<Rightarrow> unit prog" where
  "editMessageText m = emit (EditMessageText m)"

definition console_error :: "unit prog" where
  "console_error = emit ConsoleError"

definition console_log :: "unit prog" where
  "console_log = emit ConsoleLog"

fun apply_dbop :: "dbop \<Rightarrow> (string \<rightharpoonup> user) \<Rightarrow> (string \<rightharpoonup> user)" where
  "apply_dbop (Remove tid) s = s(tid := None)"
| "apply_dbop (Put u) s = s(telegramId u \<mapsto> u)"

text \<open>
  \<^verbatim>\<open>(await conversation.waitFor("message:text")).message.text\<close> within one run
  of a conversation builder: the next text message the run has, with whatever happened to
  the collection before it arrived; a run that has no further message is suspended. Read
  on its own, a builder applied to a world with all its messages is the conversation
  resumed in place at every wait. The conversation engine further down runs the builder
  the way the conversations plugin does, from the top on every update.
\<close>

definition waitFor :: "string prog" where
  "waitFor = (\<lambda>w. case inbox w of
      [] \<Rightarrow> (Suspended, w)
    | m # ms \<Rightarrow> (Returned (text_of m),
                 w\<lparr>store := fold apply_dbop (meanwhile m) (store w), inbox := ms\<rparr>))"

text \<open>A text message that arrives with nothing having happened to the collection.\<close>

definition msg :: "string \<Rightarrow> inbound" where
  "msg t = \<lparr>meanwhile = [], text_of = t\<rparr>"

subsection \<open>Numbers and their display\<close>

definition digit_char :: "nat \<Rightarrow> char" where
  "digit_char d = ''0123456789'' ! d"

text \<open>The decimal digits of a non-negative integer, as \<^verbatim>\<open>toString\<close> prints them.\<close>

fun digits :: "nat \<Rightarrow> string" where
  "digits n = (if n < 10 then [digit_char n] else digits (n div 10) @ [digit_char (n mod 10)])"

declare digits.simps [simp del]

text \<open>
  \<^verbatim>\<open>toString\<close> of a number holding an integer, as it prints below \<open>10 ^ 21\<close>
  in magnitude (chat identities are far smaller).
\<close>

definition Number_toString :: "int \<Rightarrow> string" where
  "Number_toString i = (if i < 0 then CHR ''-'' # digits (nat (- i)) else digits (nat i))"

definition round_half_even :: "rat \<Rightarrow> int" where
  "round_half_even y =
     (let f = \<lfloor>y\<rfloor>; r = y - of_int f
      in if r < 1 / 2 then f else if 1 / 2 < r then f + 1 else if even f then f else f + 1)"

text \<open>The binary exponent of the quotient \<open>a / b\<close> of two positive integers.\<close>

definition binade :: "nat \<Rightarrow> nat \<Rightarrow> int" where
  "binade a b =
     (let d = bitlen (int a) - bitlen (int b)
      in if of_nat b * (2::rat) powi d \<le> of_nat a then d else d - 1)"

text \<open>
  \<^verbatim>\<open>a / b\<close> on numbers holding non-negative integers: the exact quotient rounded to
  the nearest double (53 significant bits, ties to even). Between integers below
  \<open>2 ^ 53\<close> the quotient is far inside the normal range, so neither overflow nor
  gradual underflow occurs.
\<close>

definition js_div :: "nat \<Rightarrow> nat \<Rightarrow> number" where
  "js_div a b =
     (if b = 0 then (if a = 0 then NaN else PosInfinity)
      else if a = 0 then Finite 0
      else let e = binade a b
           in Finite (of_int (round_half_even (of_nat a / of_nat b * 2 powi (52 - e))) * 2 powi (e - 52)))"

text \<open>
  The digits of \<open>n\<close> with a decimal point before the last \<open>f\<close> of them, padded with
  leading zeros to at least \<open>f + 1\<close> digits (the last steps of \<^verbatim>\<open>toFixed\<close>).
\<close>

definition point_before :: "nat \<Rightarrow> nat \<Rightarrow> string" where
  "point_before f n =
     (let m = digits n;
          m = replicate (f + 1 - length m) CHR ''0'' @ m;
          k = length m
      in if f = 0 then m else take (k - f) m @ ''.'' @ drop (k - f) m)"

text \<open>
  \<^verbatim>\<open>Number.prototype.toFixed(f)\<close>: the integer \<open>n\<close> for which \<open>n / 10 ^ f\<close> is
  closest to the magnitude of the number (the larger one of two), printed with \<open>f\<close>
  fraction digits after the sign. From \<open>10 ^ 21\<close> on the built-in switches to exponent
  notation, which is not modelled: the result is then \<open>None\<close>.
\<close>

definition toFixed :: "nat \<Rightarrow> number \<Rightarrow> string option" where
  "toFixed f x =
     (case x of
        NaN \<Rightarrow> Some ''NaN''
      | PosInfinity \<Rightarrow> Some ''Infinity''
      | NegInfinity \<Rightarrow> Some ''-Infinity''
      | Finite q \<Rightarrow>
          if 10 ^ 21 \<le> \<bar>q\<bar> then None
          else let n = nat \<lfloor>\<bar>q\<bar> * 10 ^ f + 1 / 2\<rfloor>
               in Some ((if q < 0 then ''-'' else '''') @ point_before f n))"

text \<open>
  Modelled from the spec: viem's \<^verbatim>\<open>formatEther\<close> is a library function outside the
  repository; the specification says that wei are converted to the human-readable unit
  with the divisor \<open>10 ^ 18\<close>. The value is kept as an exact rational.
\<close>

definition formatEther :: "nat \<Rightarrow> rat" where
  "formatEther wei = of_nat wei / 10 ^ 18"

subsection \<open>The chat context\<close>

record tg_user =
  from_id :: int
  from_username :: "string option"

record ctx =
  ctx_from :: "tg_user option"

text \<open>A string that may be undefined counts as given only when it is non-empty.\<close>

definition truthy :: "string option \<Rightarrow> string option" where
  "truthy v = (case v of None \<Rightarrow> None | Some s \<Rightarrow> if s = [] then None else Some s)"

text \<open>\<^verbatim>\<open>ctx.from?.id.toString()\<close>\<close>

definition ctx_telegramId :: "ctx \<Rightarrow> string option" where
  "ctx_telegramId c = map_option (\<lambda>f. Number_toString (from_id f)) (ctx_from c)"

text \<open>\<^verbatim>\<open>ctx.from?.username?.toString()\<close>\<close>

definition ctx_username :: "ctx \<Rightarrow> string option" where
  "ctx_username c = Option.bind (ctx_from c) from_username"

subsection \<open>wallet.ts\<close>

text \<open>
  \<^verbatim>\<open>generateAccount\<close> and \<^verbatim>\<open>generateSolanaAccount\<close>: one pre-generated wallet
  from the signer under the identifier \<^verbatim>\<open>${telegramId}@${DOMAIN}\<close>, returned with
  the user share.
\<close>

definition generateAccount :: "env \<Rightarrow> string \<Rightarrow> pregen prog" where
  "generateAccount env tid =
     call (CreateWalletPreGen EVM (tid @ ''@'' @ DOMAIN env))
          (createWalletPreGen env EVM (tid @ ''@'' @ DOMAIN env))"

definition generateSolanaAccount :: "env \<Rightarrow> string \<Rightarrow> pregen prog" where
  "generateSolanaAccount env tid =
     call (CreateWalletPreGen SOLANA (tid @ ''@'' @ DOMAIN env))
          (createWalletPreGen env SOLANA (tid @ ''@'' @ DOMAIN env))"

text \<open>The regular expressions the source uses: characters, classes and sequence.\<close>

datatype regex = Eps | Chr char | Class "char list" | Seq regex regex

text \<open>\<open>r{n}\<close>: exactly \<open>n\<close> copies of \<open>r\<close> in sequence.\<close>

primrec Times :: "nat \<Rightarrow> regex \<Rightarrow> regex" where
  "Times 0 r = Eps"
| "Times (Suc n) r = Seq r (Times n r)"

text \<open>What is left of the text after the expression has matched a prefix of it.\<close>

fun strip :: "regex \<Rightarrow> string \<Rightarrow> string option" where
  "strip Eps s = Some s"
| "strip (Chr c) s = (case s of [] \<Rightarrow> None | x # xs \<Rightarrow> if x = c then Some xs else None)"
| "strip (Class cs) s = (case s of [] \<Rightarrow> None | x # xs \<Rightarrow> if x \<in> set cs then Some xs else None)"
| "strip (Seq a b) s = (case strip a s of None \<Rightarrow> None | Some t \<Rightarrow> strip b t)"

text \<open>\<^verbatim>\<open>/^r$/.test(s)\<close>: the expression matches the whole text.\<close>

definition regex_test :: "regex \<Rightarrow> string \<Rightarrow> bool" where
  "regex_test r s = (strip r s = Some [])"

definition hex_class :: "char list" where
  "hex_class = ''abcdef'' @ ''ABCDEF'' @ ''0123456789''"

text \<open>\<^verbatim>\<open>/^0x[a-fA-F0-9]{40}$/.test(address)\<close>\<close>

definition isValidEthereumAddress :: "string \<Rightarrow> bool" where
  "isValidEthereumAddress address =
     regex_test (Seq (Chr CHR ''0'') (Seq (Chr CHR ''x'') (Times 40 (Class hex_class)))) address"

text \<open>
  \<^verbatim>\<open>sendTransaction\<close>: hands the user share, the receiver and the amount to the
  Capsule viem client. The conversion \<^verbatim>\<open>BigInt(Number(amountInETH) * 10 ** 18)\<close>
  and the errors it can raise are part of the collaborator's answer.
\<close>

definition sendTransaction :: "env \<Rightarrow> user \<Rightarrow> string \<Rightarrow> string \<Rightarrow> string prog" where
  "sendTransaction env u amountInETH receiverAddress =
     await (call (ViemSendTransaction (evmUserShare u) receiverAddress amountInETH)
                 (viemSendTransaction env (evmUserShare u) receiverAddress amountInETH)) (\<lambda>tx.
     await console_log (\<lambda>_.
     return tx))"

text \<open>\<^verbatim>\<open>new PublicKey(text)\<close>: throws on text that is not a key.\<close>

definition new_PublicKey :: "env \<Rightarrow> string \<Rightarrow> pubkey prog" where
  "new_PublicKey env s = (case PublicKey env s of Inl e \<Rightarrow> throw e | Inr k \<Rightarrow> return k)"

text \<open>
  \<^verbatim>\<open>PublicKey.isOnCurve(text)\<close>: the static method builds the key from the text
  and then tests it, the two steps \<^verbatim>\<open>sendSolanaTransaction\<close> writes out.
\<close>

definition PublicKey_isOnCurve :: "env \<Rightarrow> string \<Rightarrow> bool prog" where
  "PublicKey_isOnCurve env s = await (new_PublicKey env s) (\<lambda>k. return (isOnCurve env k))"

text \<open>
  \<^verbatim>\<open>sendSolanaTransaction\<close>: every error inside is logged and replaced by one
  error. The product \<^verbatim>\<open>LAMPORTS_PER_SOL * amountInSOL\<close> is formed by the
  collaborator from the amount it is given.
\<close>

definition sendSolanaTransaction :: "env \<Rightarrow> user \<Rightarrow> string \<Rightarrow> number \<Rightarrow> string prog" where
  "sendSolanaTransaction env u destAddress amountInSOL =
     try_catch
       (await console_log (\<lambda>_.
        await (new_PublicKey env (solanaAddress u)) (\<lambda>fromPublicKey.
        await console_log (\<lambda>_.
        await (new_PublicKey env destAddress) (\<lambda>toPublicKey.
        await console_log (\<lambda>_.
        if \<not> isOnCurve env toPublicKey then throw (Error ''Invalid recipient public key.'')
        else
          await (call GetLatestBlockhash
                   (case getLatestBlockhash env of Some e \<Rightarrow> Inl e | None \<Rightarrow> Inr ())) (\<lambda>_.
          await (call (SignerSendTransaction (solanaUserShare u) fromPublicKey toPublicKey amountInSOL)
                   (signerSendTransaction env (solanaUserShare u) fromPublicKey toPublicKey amountInSOL)) (\<lambda>tx.
          await console_log (\<lambda>_.
          return tx)))))))))
       (\<lambda>error. await console_error (\<lambda>_. throw (Error ''Failed to send SOL transaction'')))"

subsection \<open>callbacks.ts\<close>

definition handleWallet :: "env \<Rightarrow> ctx \<Rightarrow> unit prog" where
  "handleWallet env c =
     (case truthy (ctx_telegramId c) of
        None \<Rightarrow> reply ErrorOccurred
      | Some tid \<Rightarrow>
          await (findOne env tid) (\<lambda>found.
          case found of
            None \<Rightarrow> reply NoAccountFound
          | Some u \<Rightarrow>
              await (reply (YourWallets (evmAddress u) (solanaAddress u))) (\<lambda>_.
              try_catch
                (await (call (ClientGetBalance (evmAddress u)) (getBalance env (evmAddress u))) (\<lambda>ethBalance.
                 await (reply (EthereumBalance (formatEther ethBalance))) (\<lambda>_.
                 await (new_PublicKey env (solanaAddress u)) (\<lambda>solanaPublicKey.
                 await (call (ConnectionGetBalance solanaPublicKey)
                          (solGetBalance env solanaPublicKey)) (\<lambda>solBalance.
                 reply (SolanaBalance (toFixed 4 (js_div solBalance (10 ^ 9)))))))))
                (\<lambda>error. await console_error (\<lambda>_. reply ErrorFetchingBalances)))))"

definition handleStart :: "env \<Rightarrow> ctx \<Rightarrow> unit prog" where
  "handleStart env c =
     (case truthy (ctx_telegramId c) of
        None \<Rightarrow> reply ErrorOccurred
      | Some tid \<Rightarrow>
          await (findOne env tid) (\<lambda>found.
          case found of
            Some u \<Rightarrow> await (reply AlreadyRegistered) (\<lambda>_. handleWallet env c)
          | None \<Rightarrow>
              try_catch
                (await (reply GeneratingWallets) (\<lambda>msg.
                 await (generateAccount env tid) (\<lambda>ethAccount.
                 await (generateSolanaAccount env tid) (\<lambda>solanaAccount.
                 case (truthy (wallet_address ethAccount), truthy (wallet_address solanaAccount)) of
                   (Some evmAddr, Some solanaAddr) \<Rightarrow>
                     await (save env
                              \<lparr>telegramId = tid,
                               username = (case truthy (ctx_username c) of Some n \<Rightarrow> n | None \<Rightarrow> tid),
                               evmUserShare = share ethAccount,
                               evmAddress = evmAddr,
                               solanaUserShare = share solanaAccount,
                               solanaAddress = solanaAddr\<rparr>) (\<lambda>_.
                     await (editMessageText WalletsCreated) (\<lambda>_.
                     handleWallet env c))
                 | _ \<Rightarrow> editMessageText FailedToCreateAccount))))
                (\<lambda>err. await console_error (\<lambda>_. reply ErrorCreatingAccount))))"

fun isNaN :: "number \<Rightarrow> bool" where
  "isNaN NaN = True"
| "isNaN _ = False"

text \<open>\<^verbatim>\<open>x <= 0\<close> on numbers: false for NaN.\<close>

fun le_zero :: "number \<Rightarrow> bool" where
  "le_zero NaN = False"
| "le_zero NegInfinity = True"
| "le_zero (Finite q) = (q \<le> 0)"
| "le_zero PosInfinity = False"

definition transferETHConversation :: "env \<Rightarrow> ctx \<Rightarrow> unit prog" where
  "transferETHConversation env c =
     (case truthy (ctx_telegramId c) of
        None \<Rightarrow> reply ErrorOccurred
      | Some tid \<Rightarrow>
          await (findOne env tid) (\<lambda>found.
          case found of
            None \<Rightarrow> reply NoAccountRegisterFirst
          | Some u \<Rightarrow>
              await (reply ProvideEthAddress) (\<lambda>_.
              await waitFor (\<lambda>destAddress.
              if \<not> isAddress env destAddress then reply InvalidEthereumAddress
              else
                await (reply HowMuchEth) (\<lambda>_.
                await waitFor (\<lambda>amountInETH.
                await (reply (SendingEth amountInETH destAddress)) (\<lambda>msg.
                if isNaN (parseFloat env amountInETH) \<or> le_zero (parseFloat env amountInETH)
                then editMessageText InvalidEthAmount
                else
                  try_catch
                    (await (sendTransaction env u amountInETH destAddress) (\<lambda>tx.
                     editMessageText (SentEth amountInETH destAddress tx)))
                    (\<lambda>error. await console_error (\<lambda>_.
                       editMessageText FailedToSendTransaction)))))))))"

definition transferSOLConversation :: "env \<Rightarrow> ctx \<Rightarrow> unit prog" where
  "transferSOLConversation env c =
     (case truthy (ctx_telegramId c) of
        None \<Rightarrow> reply ErrorOccurred
      | Some tid \<Rightarrow>
          await (findOne env tid) (\<lambda>found.
          case found of
            None \<Rightarrow> reply NoAccountRegisterFirst
          | Some u \<Rightarrow>
              await (reply ProvideSolAddress) (\<lambda>_.
              await waitFor (\<lambda>destAddress.
              await (PublicKey_isOnCurve env destAddress) (\<lambda>onCurve.
              if \<not> onCurve then reply InvalidSolanaAddress
              else
                await (reply HowMuchSol) (\<lambda>_.
                await waitFor (\<lambda>amountInSOL.
                await (reply (SendingSol amountInSOL destAddress)) (\<lambda>msg.
                if isNaN (parseFloat env amountInSOL) \<or> le_zero (parseFloat env amountInSOL)
                then editMessageText InvalidSolAmount
                else
                  try_catch
                    (await (sendSolanaTransaction env u destAddress (parseFloat env amountInSOL)) (\<lambda>tx.
                     editMessageText (SentSol amountInSOL destAddress tx)))
                    (\<lambda>error. await console_error (\<lambda>_.
                       editMessageText FailedToSendSolTransaction))))))))))"

subsection \<open>The earlier send conversation\<close>

text \<open>
  \<^verbatim>\<open>transferConversation\<close>, the conversation that \<^verbatim>\<open>index.ts\<close> registers
  under the name \<^verbatim>\<open>send\<close>. Its address check is written out in the handler:
  \<^verbatim>\<open>!destAddress.startsWith("0x") || destAddress.length !== 42\<close>.
\<close>

definition startsWith :: "string \<Rightarrow> string \<Rightarrow> bool" where
  "startsWith s p = (take (length p) s = p)"

definition transferConversation :: "env \<Rightarrow> ctx \<Rightarrow> unit prog" where
  "transferConversation env c =
     (case truthy (ctx_telegramId c) of
        None \<Rightarrow> reply ErrorOccurred
      | Some tid \<Rightarrow>
          await (findOne env tid) (\<lambda>found.
          case found of
            None \<Rightarrow> reply NoAccountRegisterFirst
          | Some u \<Rightarrow>
              await (reply ProvideFundsAddress) (\<lambda>_.
              await waitFor (\<lambda>destAddress.
              if \<not> startsWith destAddress ''0x'' \<or> length destAddress \<noteq> 42
              then reply InvalidEthereumAddress
              else
                await (reply HowMuchEth) (\<lambda>_.
                await waitFor (\<lambda>amountInETH.
                if isNaN (parseFloat env amountInETH) \<or> le_zero (parseFloat env amountInETH)
                then reply ProvideValidEthAmount
                else
                  try_catch
                    (await (sendTransaction env u amountInETH destAddress) (\<lambda>tx.
                     reply (SentFunds amountInETH destAddress tx)))
                    (\<lambda>error. await console_error (\<lambda>_. reply FailedToSendFunds))))))))"

subsection \<open>The conversation engine\<close>

text \<open>
  The conversations plugin keeps no call stack between updates. On the command it runs
  the builder until the first wait; on every later update it runs the builder again from
  the top. In such a run the waits are answered from the updates received so far, and a
  chat API call that an earlier run has already made is answered from the plugin's log
  and not sent again. Everything else the builder awaits is executed again in every run:
  the lookup \<^verbatim>\<open>User.findOne\<close> at the head of each builder is such a call.
\<close>

fun is_api :: "event \<Rightarrow> bool" where
  "is_api (Reply _) = True"
| "is_api (EditMessageText _) = True"
| "is_api _ = False"

text \<open>The events of a run without its first \<open>n\<close> chat API calls, which are replayed.\<close>

fun skip_api :: "nat \<Rightarrow> event list \<Rightarrow> event list" where
  "skip_api n [] = []"
| "skip_api n (ev # evs) =
     (if n = 0 then ev # evs
      else if is_api ev then skip_api (n - 1) evs
      else ev # skip_api n evs)"

text \<open>
  One run of the builder on the texts \<open>delivered\<close> so far against the collection as it
  is now, \<open>api_done\<close> chat API calls being on the log. A suspended run is followed by
  the next run when the next update has arrived, after what happened to the collection in
  the meantime.
\<close>

fun engine :: "unit prog \<Rightarrow> string list \<Rightarrow> nat \<Rightarrow> inbound list \<Rightarrow> world \<Rightarrow> unit result \<times> world" where
  "engine builder delivered api_done [] w =
     (case builder \<lparr>store = store w, trace = [], inbox = map msg delivered\<rparr> of
        (r, run) \<Rightarrow>
          (r, w\<lparr>store := store run, trace := trace w @ skip_api api_done (trace run),
                inbox := []\<rparr>))"
| "engine builder delivered api_done (u # us) w =
     (case builder \<lparr>store = store w, trace = [], inbox = map msg delivered\<rparr> of
        (Suspended, run) \<Rightarrow>
          engine builder (delivered @ [text_of u]) (length (filter is_api (trace run))) us
            (w\<lparr>store := fold apply_dbop (meanwhile u) (store run),
               trace := trace w @ skip_api api_done (trace run), inbox := us\<rparr>)
      | (r, run) \<Rightarrow>
          (r, w\<lparr>store := store run, trace := trace w @ skip_api api_done (trace run),
                inbox := u # us\<rparr>))"

text \<open>Entering a conversation in a world whose inbox holds the updates still to come.\<close>

definition run_conversation :: "unit prog \<Rightarrow> unit prog" where
  "run_conversation builder = (\<lambda>w. engine builder [] 0 (inbox w) w)"

subsection \<open>A sample deployment\<close>

text \<open>
  One concrete environment in which every collaborator answers, one registered user and
  one chat context, for evaluating the handlers. Variations are record updates of it.
  What the sample collaborators answer is fixed by small tables: which texts the key
  parser accepts, which keys are on the curve and what the amount parser returns are
  their answers, not facts about the libraries.
\<close>

definition alice :: user where
  "alice = \<lparr>telegramId = ''1001'', username = ''alice'',
             evmUserShare = ''evm-share'',
             evmAddress = ''0x52908400098527886e0f7030069857d2e4169ee7'',
             solanaUserShare = ''sol-share'',
             solanaAddress = ''4Nd1mYvWJ5Zr8o9b6o3xT1H8q7cJ2uKpG5sVfQeWmLhA''\<rparr>"

definition ctx_alice :: ctx where
  "ctx_alice = \<lparr>ctx_from = Some \<lparr>from_id = 1001, from_username = Some ''alice''\<rparr>\<rparr>"

definition bob_sol :: string where
  "bob_sol = ''7xKXtg2CW87d97TXJSDpbD5jBkheTqA83TZRuJosgAsU''"

definition off_curve_sol :: string where
  "off_curve_sol = ''11111111111111111111111111111112''"

definition bob_evm :: string where
  "bob_evm = ''0xde709f2102306220921060314715629080e2fb77''"

definition env_ok :: env where
  "env_ok = \<lparr>
     db_error = None,
     save_error = (\<lambda>_. None),
     DOMAIN = ''example.com'',
     createWalletPreGen = (\<lambda>t ident. Inr \<lparr>
        wallet_address = Some (case t of EVM \<Rightarrow> evmAddress alice | SOLANA \<Rightarrow> solanaAddress alice),
        share = (case t of EVM \<Rightarrow> ''evm-share'' | SOLANA \<Rightarrow> ''sol-share'')\<rparr>),
     getBalance = (\<lambda>_. Inr 1500000000000000000),
     PublicKey = (\<lambda>s. if s = solanaAddress alice then Inr (PubKey 1)
                      else if s = bob_sol then Inr (PubKey 2)
                      else if s = off_curve_sol then Inr (PubKey 3)
                      else Inl (Error ''Invalid public key input'')),
     isOnCurve = (\<lambda>k. k \<noteq> PubKey 3),
     solGetBalance = (\<lambda>_. Inr 1234567890),
     getLatestBlockhash = None,
     isAddress = isValidEthereumAddress,
     parseFloat = (\<lambda>s. if s = ''0.5'' then Finite (1 / 2)
                       else if s = ''-3'' then Finite (- 3)
                       else if s = ''0'' then Finite 0
                       else NaN),
     viemSendTransaction = (\<lambda>_ _ _. Inr ''0xtxhash''),
     signerSendTransaction = (\<lambda>_ _ _ _. Inr ''soltxsig'')\<rparr>"

definition world0 :: world where
  "world0 = \<lparr>store = Map.empty, trace = [], inbox = []\<rparr>"

definition world_alice :: world where
  "world_alice = \<lparr>store = [''1001'' \<mapsto> alice], trace = [], inbox = []\<rparr>"

definition env_evm_down :: env where
  "env_evm_down = env_ok\<lparr>getBalance := (\<lambda>_. Inl (Error ''rpc unreachable''))\<rparr>"

definition env_sol_down :: env where
  "env_sol_down = env_ok\<lparr>solGetBalance := (\<lambda>_. Inl (Error ''devnet unreachable''))\<rparr>"

definition env_rpc_down :: env where
  "env_rpc_down = env_evm_down\<lparr>solGetBalance := (\<lambda>_. Inl (Error ''devnet unreachable''))\<rparr>"

definition env_db_down :: env where
  "env_db_down = env_ok\<lparr>db_error := Some (Error ''store unreachable'')\<rparr>"

definition env_sol_signer_down :: env where
  "env_sol_signer_down = env_ok\<lparr>createWalletPreGen :=
     (\<lambda>t ident. case t of EVM \<Rightarrow> createWalletPreGen env_ok EVM ident
                         | SOLANA \<Rightarrow> Inl (Error ''signer unavailable''))\<rparr>"


definition world_send_eth :: world where
  "world_send_eth = world_alice\<lparr>inbox := [msg bob_evm, msg ''0.5'']\<rparr>"

definition world_send_sol :: world where
  "world_send_sol = world_alice\<lparr>inbox := [msg bob_sol, msg ''0.5'']\<rparr>"

definition world_eth_negative :: world where
  "world_eth_negative = world_alice\<lparr>inbox := [msg bob_evm, msg ''-3'']\<rparr>"

definition world_sol_negative :: world where
  "world_sol_negative = world_alice\<lparr>inbox := [msg bob_sol, msg ''-3'']\<rparr>"

text \<open>The document of the sender is removed while the conversation waits for the amount.\<close>

definition world_account_removed :: world where
  "world_account_removed =
     world_alice\<lparr>inbox := [msg bob_evm, \<lparr>meanwhile = [Remove ''1001''], text_of = ''0.5''\<rparr>]\<rparr>"

text \<open>The share of the sender is replaced while the conversation waits for the amount.\<close>

definition alice_rotated :: user where
  "alice_rotated = alice\<lparr>evmUserShare := ''evm-share-2''\<rparr>"

definition world_share_rotated :: world where
  "world_share_rotated =
     world_alice\<lparr>inbox := [msg bob_evm, \<lparr>meanwhile = [Put alice_rotated], text_of = ''0.5''\<rparr>]\<rparr>"

definition non_hex_evm :: string where
  "non_hex_evm = ''0xzzzzzzzzzzzzzzzzzzzzzzzzzzzzzzzzzzzzzzzz''"

definition world_legacy_non_hex :: world where
  "world_legacy_non_hex = world_alice\<lparr>inbox := [msg non_hex_evm]\<rparr>"

definition env_viem_down :: env where
  "env_viem_down = env_ok\<lparr>viemSendTransaction := (\<lambda>_ _ _. Inl (Error ''insufficient funds''))\<rparr>"

definition env_save_down :: env where
  "env_save_down = env_ok\<lparr>save_error := (\<lambda>_. Some (Error ''validation failed''))\<rparr>"

definition world_sol_malformed :: world where
  "world_sol_malformed = world_alice\<lparr>inbox := [msg ''hello'']\<rparr>"

definition world_sol_off_curve :: world where
  "world_sol_off_curve = world_alice\<lparr>inbox := [msg off_curve_sol]\<rparr>"

definition world_sol_addressed :: world where
  "world_sol_addressed = world_alice\<lparr>inbox := [msg bob_sol]\<rparr>"

text \<open>What running a handler adds to the trace, and the result and store it ends with.\<close>

definition events_of :: "'a prog \<Rightarrow> world \<Rightarrow> event list" where
  "events_of p w = drop (length (trace w)) (trace (snd (p w)))"

definition result_of :: "'a prog \<Rightarrow> world \<Rightarrow> 'a result" where
  "result_of p w = fst (p w)"

definition store_after :: "'a prog \<Rightarrow> world \<Rightarrow> (string \<rightharpoonup> user)" where
  "store_after p w = store (snd (p w))"

subsection \<open>Predicates on events and collaborators\<close>

fun is_provisioning :: "event \<Rightarrow> bool" where
  "is_provisioning (Save _) = True"
| "is_provisioning (CreateWalletPreGen _ _) = True"
| "is_provisioning _ = False"

fun is_write :: "event \<Rightarrow> bool" where
  "is_write (Save _) = True"
| "is_write _ = False"


text \<open>
  The signer has created a binding with an address for both chains, under the
  identifier the handler derives from the chat identity.
\<close>

definition bindings_created :: "env \<Rightarrow> string \<Rightarrow> bool" where
  "bindings_created env tid =
     (case (createWalletPreGen env EVM (tid @ ''@'' @ DOMAIN env),
            createWalletPreGen env SOLANA (tid @ ''@'' @ DOMAIN env)) of
        (Inr a, Inr b) \<Rightarrow> truthy (wallet_address a) \<noteq> None \<and> truthy (wallet_address b) \<noteq> None
      | _ \<Rightarrow> False)"

text \<open>The call into a collaborator that the event records raised an error.\<close>

fun raised :: "env \<Rightarrow> event \<Rightarrow> bool" where
  "raised env (CreateWalletPreGen t ident) = isl (createWalletPreGen env t ident)"
| "raised env (ClientGetBalance a) = isl (getBalance env a)"
| "raised env (ConnectionGetBalance k) = isl (solGetBalance env k)"
| "raised env GetLatestBlockhash = (getLatestBlockhash env \<noteq> None)"
| "raised env (ViemSendTransaction s t a) = isl (viemSendTransaction env s t a)"
| "raised env (SignerSendTransaction s f t n) = isl (signerSendTransaction env s f t n)"
| "raised env _ = False"

text \<open>The messages with which a handler tells the user that an error was caught.\<close>

definition failure_reports :: "event set" where
  "failure_reports =
     {Reply ErrorCreatingAccount, Reply ErrorFetchingBalances,
      EditMessageText FailedToSendTransaction, EditMessageText FailedToSendSolTransaction}"

text \<open>Reading decimal digits back: the number a string of digits denotes.\<close>

definition is_digit :: "char \<Rightarrow> bool" where
  "is_digit ch = (ch \<in> set ''0123456789'')"

definition digit_value :: "char \<Rightarrow> nat" where
  "digit_value ch = of_char ch - 48"

definition digits_value :: "string \<Rightarrow> nat" where
  "digits_value s = foldl (\<lambda>acc ch. 10 * acc + digit_value ch) 0 s"

text \<open>A hexadecimal digit in either case.\<close>

definition is_hex_digit :: "char \<Rightarrow> bool" where
  "is_hex_digit ch = (ch \<in> set ''0123456789abcdefABCDEF'')"

section \<open>Properties\<close>

lemmas monad_defs = await_def try_catch_def emit_def call_def return_def throw_def reply_def
  editMessageText_def console_error_def console_log_def findOne_def new_PublicKey_def
  events_of_def result_of_def store_after_def

lemmas sample_defs = env_ok_def env_evm_down_def env_sol_down_def env_rpc_down_def
  env_db_down_def env_sol_signer_down_def alice_def ctx_alice_def world0_def world_alice_def
  msg_def bob_sol_def bob_evm_def off_curve_sol_def world_send_eth_def world_eth_negative_def
  world_sol_negative_def world_account_removed_def world_sol_malformed_def
  world_sol_off_curve_def world_send_sol_def world_sol_addressed_def alice_rotated_def
  world_share_rotated_def non_hex_evm_def world_legacy_non_hex_def env_viem_down_def
  env_save_down_def

lemma digits_1001: "digits 1001 = ''1001''"
  by code_simp

lemma alice_id: "truthy (ctx_telegramId ctx_alice) = Some ''1001''"
  by (simp add: truthy_def ctx_telegramId_def ctx_alice_def Number_toString_def digits_1001)

lemma alice_registered: "store world_alice ''1001'' = Some alice"
  by (simp add: sample_defs)

lemma alice_unknown: "store world0 ''1001'' = None"
  by (simp add: sample_defs)

subsection \<open>Balance display\<close>

text \<open>
  C10. For a registered user the wallet display returns normally and the first thing it
  sends, right after the store lookup, is the message with both addresses. Every balance
  query comes later in the trace, so the addresses are shown whatever the balance queries
  do, also when all of them fail.
\<close>

theorem handleWallet_addresses_first:
  assumes "truthy (ctx_telegramId c) = Some tid" and "db_error env = None"
    and "store w tid = Some u"
  shows "result_of (handleWallet env c) w = Returned () \<and>
         (\<exists>rest. events_of (handleWallet env c) w =
            [FindOne tid, Reply (YourWallets (evmAddress u) (solanaAddress u))] @ rest)"
  using assms
  by (simp add: handleWallet_def monad_defs split: sum.splits)

theorem handleWallet_addresses_first_witness:
  "truthy (ctx_telegramId ctx_alice) = Some ''1001'' \<and> db_error env_rpc_down = None \<and>
   store world_alice ''1001'' = Some alice \<and>
   getBalance env_rpc_down (evmAddress alice) = Inl (Error ''rpc unreachable'') \<and>
   result_of (handleWallet env_rpc_down ctx_alice) world_alice = Returned () \<and>
   (\<exists>rest. events_of (handleWallet env_rpc_down ctx_alice) world_alice =
      [FindOne ''1001'', Reply (YourWallets (evmAddress alice) (solanaAddress alice))] @ rest)"
proof -
  have h2: "db_error env_rpc_down = None" by (simp add: sample_defs)
  have h4: "getBalance env_rpc_down (evmAddress alice) = Inl (Error ''rpc unreachable'')"
    by (simp add: sample_defs)
  from handleWallet_addresses_first [OF alice_id h2 alice_registered] alice_id h2 alice_registered h4
  show ?thesis by simp
qed

text \<open>
  C1, as stated, fails: when the EVM balance query throws, the single
  \<^verbatim>\<open>try\<close> block is left before the Solana query is made. In the sample
  deployment with the EVM RPC down, the Solana query would answer 1234567890 lamports,
  yet the user gets the addresses and one generic failure message, and no Solana balance.
\<close>

theorem handleWallet_evm_failure_hides_solana_balance:
  "solGetBalance env_evm_down (PubKey 1) = Inr 1234567890 \<and>
   PublicKey env_evm_down (solanaAddress alice) = Inr (PubKey 1) \<and>
   getBalance env_evm_down (evmAddress alice) = Inl (Error ''rpc unreachable'') \<and>
   events_of (handleWallet env_evm_down ctx_alice) world_alice =
     [FindOne ''1001'', Reply (YourWallets (evmAddress alice) (solanaAddress alice)),
      ClientGetBalance (evmAddress alice), ConsoleError, Reply ErrorFetchingBalances]"
  using alice_id
  by (simp add: handleWallet_def monad_defs sample_defs)

text \<open>
  C1, amended. For a registered user the balance display does exactly one of four things.
  If the EVM query throws, the Solana query is not attempted and the user gets the generic
  failure message only. If the EVM query succeeds, its balance is shown first; a Solana
  failure afterwards (the stored address does not parse, or the query throws) adds the
  generic failure message and leaves the EVM balance shown. If both succeed both balances
  are shown.
\<close>

theorem handleWallet_balance_outcomes:
  assumes "truthy (ctx_telegramId c) = Some tid" and "db_error env = None"
    and "store w tid = Some u"
  shows "(\<forall>e. getBalance env (evmAddress u) = Inl e \<longrightarrow>
            events_of (handleWallet env c) w =
              [FindOne tid, Reply (YourWallets (evmAddress u) (solanaAddress u)),
               ClientGetBalance (evmAddress u), ConsoleError, Reply ErrorFetchingBalances])
       \<and> (\<forall>wei e. getBalance env (evmAddress u) = Inr wei \<and>
            PublicKey env (solanaAddress u) = Inl e \<longrightarrow>
            events_of (handleWallet env c) w =
              [FindOne tid, Reply (YourWallets (evmAddress u) (solanaAddress u)),
               ClientGetBalance (evmAddress u), Reply (EthereumBalance (formatEther wei)),
               ConsoleError, Reply ErrorFetchingBalances])
       \<and> (\<forall>wei k e. getBalance env (evmAddress u) = Inr wei \<and>
            PublicKey env (solanaAddress u) = Inr k \<and> solGetBalance env k = Inl e \<longrightarrow>
            events_of (handleWallet env c) w =
              [FindOne tid, Reply (YourWallets (evmAddress u) (solanaAddress u)),
               ClientGetBalance (evmAddress u), Reply (EthereumBalance (formatEther wei)),
               ConnectionGetBalance k, ConsoleError, Reply ErrorFetchingBalances])
       \<and> (\<forall>wei k lamports. getBalance env (evmAddress u) = Inr wei \<and>
            PublicKey env (solanaAddress u) = Inr k \<and> solGetBalance env k = Inr lamports \<longrightarrow>
            events_of (handleWallet env c) w =
              [FindOne tid, Reply (YourWallets (evmAddress u) (solanaAddress u)),
               ClientGetBalance (evmAddress u), Reply (EthereumBalance (formatEther wei)),
               ConnectionGetBalance k,
               Reply (SolanaBalance (toFixed 4 (js_div lamports (10 ^ 9))))])"
  using assms
  by (simp add: handleWallet_def monad_defs)

theorem handleWallet_balance_outcomes_witness:
  "truthy (ctx_telegramId ctx_alice) = Some ''1001'' \<and> db_error env_sol_down = None \<and>
   store world_alice ''1001'' = Some alice \<and>
   getBalance env_sol_down (evmAddress alice) = Inr 1500000000000000000 \<and>
   PublicKey env_sol_down (solanaAddress alice) = Inr (PubKey 1) \<and>
   solGetBalance env_sol_down (PubKey 1) = Inl (Error ''devnet unreachable'') \<and>
   events_of (handleWallet env_sol_down ctx_alice) world_alice =
     [FindOne ''1001'', Reply (YourWallets (evmAddress alice) (solanaAddress alice)),
      ClientGetBalance (evmAddress alice),
      Reply (EthereumBalance (formatEther 1500000000000000000)),
      ConnectionGetBalance (PubKey 1), ConsoleError, Reply ErrorFetchingBalances] \<and>
   db_error env_ok = None \<and>
   getBalance env_ok (evmAddress alice) = Inr 1500000000000000000 \<and>
   PublicKey env_ok (solanaAddress alice) = Inr (PubKey 1) \<and>
   solGetBalance env_ok (PubKey 1) = Inr 1234567890 \<and>
   events_of (handleWallet env_ok ctx_alice) world_alice =
     [FindOne ''1001'', Reply (YourWallets (evmAddress alice) (solanaAddress alice)),
      ClientGetBalance (evmAddress alice),
      Reply (EthereumBalance (formatEther 1500000000000000000)),
      ConnectionGetBalance (PubKey 1),
      Reply (SolanaBalance (toFixed 4 (js_div 1234567890 (10 ^ 9))))]"
proof -
  have h2: "db_error env_sol_down = None" by (simp add: sample_defs)
  have h4: "getBalance env_sol_down (evmAddress alice) = Inr 1500000000000000000"
    by (simp add: sample_defs)
  have h5: "PublicKey env_sol_down (solanaAddress alice) = Inr (PubKey 1)"
    by (simp add: sample_defs)
  have h6: "solGetBalance env_sol_down (PubKey 1) = Inl (Error ''devnet unreachable'')"
    by (simp add: sample_defs)
  have k2: "db_error env_ok = None" by (simp add: sample_defs)
  have k4: "getBalance env_ok (evmAddress alice) = Inr 1500000000000000000"
    by (simp add: sample_defs)
  have k5: "PublicKey env_ok (solanaAddress alice) = Inr (PubKey 1)"
    by (simp add: sample_defs)
  have k6: "solGetBalance env_ok (PubKey 1) = Inr 1234567890"
    by (simp add: sample_defs)
  from handleWallet_balance_outcomes [OF alice_id h2 alice_registered]
    handleWallet_balance_outcomes [OF alice_id k2 alice_registered]
    alice_id h2 alice_registered h4 h5 h6 k2 k4 k5 k6
  show ?thesis by blast
qed

subsection \<open>Provisioning\<close>

text \<open>
  C3. For a chat identity that already has a document in the collection, the start
  command leaves the collection as it is, returns normally, and shows the addresses of
  exactly that document; nothing it does after that is a signer call that creates a
  wallet or a write to the collection.
\<close>

theorem handleStart_idempotent:
  assumes "truthy (ctx_telegramId c) = Some tid" and "db_error env = None"
    and "store w tid = Some u"
  shows "store_after (handleStart env c) w = store w \<and>
         result_of (handleStart env c) w = Returned () \<and>
         (\<exists>rest. events_of (handleStart env c) w =
            [FindOne tid, Reply AlreadyRegistered, FindOne tid,
             Reply (YourWallets (evmAddress u) (solanaAddress u))] @ rest \<and>
            list_all (\<lambda>ev. \<not> is_provisioning ev) rest)"
  using assms
  by (simp add: handleStart_def handleWallet_def monad_defs split: sum.splits)

theorem handleStart_idempotent_witness:
  "truthy (ctx_telegramId ctx_alice) = Some ''1001'' \<and> db_error env_ok = None \<and>
   store world_alice ''1001'' = Some alice \<and>
   store_after (handleStart env_ok ctx_alice) world_alice = store world_alice \<and>
   result_of (handleStart env_ok ctx_alice) world_alice = Returned () \<and>
   (\<exists>rest. events_of (handleStart env_ok ctx_alice) world_alice =
      [FindOne ''1001'', Reply AlreadyRegistered, FindOne ''1001'',
       Reply (YourWallets (evmAddress alice) (solanaAddress alice))] @ rest \<and>
      list_all (\<lambda>ev. \<not> is_provisioning ev) rest)"
proof -
  have h2: "db_error env_ok = None" by (simp add: sample_defs)
  from handleStart_idempotent [OF alice_id h2 alice_registered] alice_id h2 alice_registered
  show ?thesis by simp
qed

text \<open>
  C2. For a chat identity without a document: whenever the signer fails to create a
  binding for one of the two chains, or returns one without an address, the collection is
  unchanged, no write is attempted, the handler returns normally and its last message
  reports the failure. Conversely a write happens only when both bindings were created,
  and it comes after both signer calls.
\<close>

theorem handleStart_provisioning_atomic:
  assumes "truthy (ctx_telegramId c) = Some tid" and "db_error env = None"
    and "store w tid = None"
  shows "(\<not> bindings_created env tid \<longrightarrow>
            store_after (handleStart env c) w = store w \<and>
            result_of (handleStart env c) w = Returned () \<and>
            list_all (\<lambda>ev. \<not> is_write ev) (events_of (handleStart env c) w) \<and>
            last (events_of (handleStart env c) w) \<in>
              {Reply ErrorCreatingAccount, EditMessageText FailedToCreateAccount})
       \<and> (\<forall>u. Save u \<in> set (events_of (handleStart env c) w) \<longrightarrow>
            bindings_created env tid \<and>
            (\<exists>rest. events_of (handleStart env c) w =
               [FindOne tid, Reply GeneratingWallets,
                CreateWalletPreGen EVM (tid @ ''@'' @ DOMAIN env),
                CreateWalletPreGen SOLANA (tid @ ''@'' @ DOMAIN env), Save u] @ rest))"
  using assms
  by (simp add: handleStart_def generateAccount_def generateSolanaAccount_def
      bindings_created_def handleWallet_def save_def monad_defs
      split: sum.splits option.splits)

theorem handleStart_provisioning_atomic_witness:
  "truthy (ctx_telegramId ctx_alice) = Some ''1001'' \<and> db_error env_sol_signer_down = None \<and>
   store world0 ''1001'' = None \<and> \<not> bindings_created env_sol_signer_down ''1001'' \<and>
   store_after (handleStart env_sol_signer_down ctx_alice) world0 = store world0 \<and>
   result_of (handleStart env_sol_signer_down ctx_alice) world0 = Returned () \<and>
   list_all (\<lambda>ev. \<not> is_write ev) (events_of (handleStart env_sol_signer_down ctx_alice) world0) \<and>
   last (events_of (handleStart env_sol_signer_down ctx_alice) world0) \<in>
     {Reply ErrorCreatingAccount, EditMessageText FailedToCreateAccount} \<and>
   db_error env_rpc_down = None \<and>
   Save alice \<in> set (events_of (handleStart env_rpc_down ctx_alice) world0) \<and>
   bindings_created env_rpc_down ''1001'' \<and>
   (\<exists>rest. events_of (handleStart env_rpc_down ctx_alice) world0 =
      [FindOne ''1001'', Reply GeneratingWallets,
       CreateWalletPreGen EVM (''1001'' @ ''@'' @ DOMAIN env_rpc_down),
       CreateWalletPreGen SOLANA (''1001'' @ ''@'' @ DOMAIN env_rpc_down), Save alice] @ rest)"
proof -
  have h2: "db_error env_sol_signer_down = None" by (simp add: sample_defs)
  have h4: "\<not> bindings_created env_sol_signer_down ''1001''"
    by (simp add: bindings_created_def sample_defs)
  have r2: "db_error env_rpc_down = None" by (simp add: sample_defs)
  have r4: "Save alice \<in> set (events_of (handleStart env_rpc_down ctx_alice) world0)"
    using alice_id
    by (simp add: handleStart_def handleWallet_def generateAccount_def generateSolanaAccount_def
        save_def monad_defs sample_defs truthy_def ctx_username_def)
  from handleStart_provisioning_atomic [OF alice_id h2 alice_unknown]
    handleStart_provisioning_atomic [OF alice_id r2 alice_unknown]
    alice_id h2 alice_unknown h4 r2 r4
  show ?thesis by blast
qed

subsection \<open>Guided transfers\<close>

lemma bob_evm_valid: "isValidEthereumAddress bob_evm"
  by code_simp

lemma engine_ends:
  "fst (builder \<lparr>store = store w, trace = [], inbox = map msg delivered\<rparr>) \<noteq> Suspended \<Longrightarrow>
   engine builder delivered n pending w =
     (fst (builder \<lparr>store = store w, trace = [], inbox = map msg delivered\<rparr>),
      w\<lparr>store := store (snd (builder \<lparr>store = store w, trace = [], inbox = map msg delivered\<rparr>)),
        trace := trace w @ skip_api n (trace (snd (builder \<lparr>store = store w, trace = [], inbox = map msg delivered\<rparr>))),
        inbox := pending\<rparr>)"
  by (cases pending; cases "builder \<lparr>store = store w, trace = [], inbox = map msg delivered\<rparr>";
      cases "fst (builder \<lparr>store = store w, trace = [], inbox = map msg delivered\<rparr>)") auto

lemmas run_defs = await_def try_catch_def emit_def call_def return_def throw_def reply_def
  editMessageText_def console_error_def console_log_def findOne_def new_PublicKey_def
  waitFor_def msg_def run_conversation_def events_of_def result_of_def store_after_def





text \<open>
  C5. What the SOL conversation does with the destination text of a registered user.
  A text that parses to a key off the curve ends the session with the invalid-address
  message, and the amount prompt is reached only for a text that parses to a key on the
  curve. A text that does not parse as a key is the defect: the error of the key
  constructor leaves the handler, and no message about the address is sent.
\<close>

theorem transferSOL_address_outcomes:
  assumes "truthy (ctx_telegramId c) = Some tid" and "db_error env = None"
    and "store w tid = Some u" and "inbox w = a # rest"
  shows "(\<forall>e. PublicKey env (text_of a) = Inl e \<longrightarrow>
            result_of (transferSOLConversation env c) w = Thrown e \<and>
            events_of (transferSOLConversation env c) w = [FindOne tid, Reply ProvideSolAddress])
       \<and> (\<forall>k. PublicKey env (text_of a) = Inr k \<and> \<not> isOnCurve env k \<longrightarrow>
            result_of (transferSOLConversation env c) w = Returned () \<and>
            events_of (transferSOLConversation env c) w =
              [FindOne tid, Reply ProvideSolAddress, Reply InvalidSolanaAddress])
       \<and> (Reply HowMuchSol \<in> set (events_of (transferSOLConversation env c) w) \<longrightarrow>
            (\<exists>k. PublicKey env (text_of a) = Inr k \<and> isOnCurve env k))"
  using assms
  by (auto simp add: transferSOLConversation_def PublicKey_isOnCurve_def waitFor_def
      monad_defs split: sum.splits)

theorem transferSOL_address_outcomes_witness:
  "truthy (ctx_telegramId ctx_alice) = Some ''1001'' \<and> db_error env_ok = None \<and>
   store world_sol_malformed ''1001'' = Some alice \<and>
   inbox world_sol_malformed = [msg ''hello''] \<and>
   PublicKey env_ok (text_of (msg ''hello'')) = Inl (Error ''Invalid public key input'') \<and>
   result_of (transferSOLConversation env_ok ctx_alice) world_sol_malformed =
     Thrown (Error ''Invalid public key input'') \<and>
   events_of (transferSOLConversation env_ok ctx_alice) world_sol_malformed =
     [FindOne ''1001'', Reply ProvideSolAddress] \<and>
   store world_sol_off_curve ''1001'' = Some alice \<and>
   inbox world_sol_off_curve = [msg off_curve_sol] \<and>
   PublicKey env_ok (text_of (msg off_curve_sol)) = Inr (PubKey 3) \<and>
   \<not> isOnCurve env_ok (PubKey 3) \<and>
   result_of (transferSOLConversation env_ok ctx_alice) world_sol_off_curve = Returned () \<and>
   events_of (transferSOLConversation env_ok ctx_alice) world_sol_off_curve =
     [FindOne ''1001'', Reply ProvideSolAddress, Reply InvalidSolanaAddress] \<and>
   store world_sol_addressed ''1001'' = Some alice \<and>
   inbox world_sol_addressed = [msg bob_sol] \<and>
   Reply HowMuchSol
     \<in> set (events_of (transferSOLConversation env_ok ctx_alice) world_sol_addressed) \<and>
   (\<exists>k. PublicKey env_ok (text_of (msg bob_sol)) = Inr k \<and> isOnCurve env_ok k)"
proof -
  have a3: "store world_sol_addressed ''1001'' = Some alice" by (simp add: sample_defs)
  have a4: "inbox world_sol_addressed = [msg bob_sol]" by (simp add: sample_defs)
  have a5: "Reply HowMuchSol
      \<in> set (events_of (transferSOLConversation env_ok ctx_alice) world_sol_addressed)"
    using alice_id
    by (simp add: transferSOLConversation_def PublicKey_isOnCurve_def waitFor_def monad_defs
        sample_defs)
  have h2: "db_error env_ok = None" by (simp add: sample_defs)
  have m3: "store world_sol_malformed ''1001'' = Some alice" by (simp add: sample_defs)
  have m4: "inbox world_sol_malformed = [msg ''hello'']" by (simp add: sample_defs)
  have m5: "PublicKey env_ok (text_of (msg ''hello'')) = Inl (Error ''Invalid public key input'')"
    by (simp add: sample_defs)
  have o3: "store world_sol_off_curve ''1001'' = Some alice" by (simp add: sample_defs)
  have o4: "inbox world_sol_off_curve = [msg off_curve_sol]" by (simp add: sample_defs)
  have o5: "PublicKey env_ok (text_of (msg off_curve_sol)) = Inr (PubKey 3)"
    by (simp add: sample_defs)
  have o6: "\<not> isOnCurve env_ok (PubKey 3)" by (simp add: sample_defs)
  from transferSOL_address_outcomes [OF alice_id h2 m3 m4]
    transferSOL_address_outcomes [OF alice_id h2 o3 o4]
    transferSOL_address_outcomes [OF alice_id h2 a3 a4]
    alice_id h2 m3 m4 m5 o3 o4 o5 o6 a3 a4 a5
  show ?thesis by blast
qed

text \<open>
  Under the conversation engine the outcomes of the amount step and of a destination text
  that is not a key are those of the builders read on their own, with one more lookup of
  the sender at the head of every run.
\<close>

lemma invalid_amount_aborts_under_replay:
  assumes "truthy (ctx_telegramId c) = Some tid" and "db_error env = None"
    and "inbox w = a # m # rest"
    and "store w tid = Some u0"
    and "fold apply_dbop (meanwhile a) (store w) tid = Some u1"
    and "fold apply_dbop (meanwhile m) (fold apply_dbop (meanwhile a) (store w)) tid = Some u2"
    and "isNaN (parseFloat env (text_of m)) \<or> le_zero (parseFloat env (text_of m))"
  shows "(isAddress env (text_of a) \<longrightarrow>
           result_of (run_conversation (transferETHConversation env c)) w = Returned () \<and>
           events_of (run_conversation (transferETHConversation env c)) w =
             [FindOne tid, Reply ProvideEthAddress, FindOne tid, Reply HowMuchEth, FindOne tid,
              Reply (SendingEth (text_of m) (text_of a)), EditMessageText InvalidEthAmount])
       \<and> (\<forall>k. PublicKey env (text_of a) = Inr k \<and> isOnCurve env k \<longrightarrow>
           result_of (run_conversation (transferSOLConversation env c)) w = Returned () \<and>
           events_of (run_conversation (transferSOLConversation env c)) w =
             [FindOne tid, Reply ProvideSolAddress, FindOne tid, Reply HowMuchSol, FindOne tid,
              Reply (SendingSol (text_of m) (text_of a)), EditMessageText InvalidSolAmount])"
  using assms
  by (auto simp add: transferETHConversation_def transferSOLConversation_def
      PublicKey_isOnCurve_def run_defs engine_ends)

lemma malformed_key_throws_under_replay:
  assumes "truthy (ctx_telegramId c) = Some tid" and "db_error env = None"
    and "inbox w = a # rest"
    and "store w tid = Some u0"
    and "fold apply_dbop (meanwhile a) (store w) tid = Some u1"
    and "PublicKey env (text_of a) = Inl e"
  shows "result_of (run_conversation (transferSOLConversation env c)) w = Thrown e \<and>
         events_of (run_conversation (transferSOLConversation env c)) w =
           [FindOne tid, Reply ProvideSolAddress, FindOne tid]"
  using assms
  by (auto simp add: transferSOLConversation_def PublicKey_isOnCurve_def run_defs engine_ends)

subsection \<open>Errors of collaborators\<close>

lemma case_returned:
  "fst p = Returned () \<Longrightarrow>
   (case p of (Returned y, w') \<Rightarrow> f y w' | (Thrown e, w') \<Rightarrow> g e w' | (Suspended, w') \<Rightarrow> h w')
     = f () (snd p)"
  by (cases p) auto

lemma handleWallet_returns:
  "db_error env = None \<Longrightarrow> fst (handleWallet env c w) = Returned ()"
  by (simp add: handleWallet_def monad_defs split: option.splits sum.splits)

lemma handleWallet_trace:
  "trace (snd (handleWallet env c w)) = trace w @ events_of (handleWallet env c) w"
  by (simp add: handleWallet_def monad_defs split: option.splits sum.splits)

lemma handleWallet_says_something:
  "events_of (handleWallet env c) w \<noteq> []"
  by (simp add: handleWallet_def monad_defs split: option.splits sum.splits)

lemma handleWallet_reports:
  "db_error env = None \<Longrightarrow> ConsoleError \<in> set (events_of (handleWallet env c) w) \<longrightarrow>
     last (events_of (handleWallet env c) w) \<in> failure_reports"
  by (simp add: handleWallet_def monad_defs failure_reports_def split: option.splits sum.splits)

lemmas start_defs = handleStart_def generateAccount_def generateSolanaAccount_def save_def
  await_def try_catch_def emit_def call_def return_def throw_def reply_def
  editMessageText_def console_error_def console_log_def findOne_def

lemma handleStart_no_throw:
  "db_error env = None \<Longrightarrow> result_of (handleStart env c) w \<noteq> Thrown e"
  unfolding result_of_def
  by (simp add: start_defs case_returned handleWallet_returns split: option.splits sum.splits)

lemma handleStart_reports:
  "db_error env = None \<Longrightarrow> ConsoleError \<in> set (events_of (handleStart env c) w) \<longrightarrow>
     last (events_of (handleStart env c) w) \<in> failure_reports"
  unfolding events_of_def [of "handleStart env c"]
  apply (simp add: start_defs case_returned handleWallet_returns handleWallet_trace
      split: option.splits sum.splits)
  apply (auto simp add: failure_reports_def handleWallet_says_something
      dest: handleWallet_reports [THEN mp])
  done

lemma transferETH_no_throw:
  "db_error env = None \<Longrightarrow> result_of (transferETHConversation env c) w \<noteq> Thrown e"
  by (simp add: transferETHConversation_def sendTransaction_def waitFor_def monad_defs
      split: option.splits sum.splits list.splits)

lemma transferETH_reports:
  "db_error env = None \<Longrightarrow>
   ConsoleError \<in> set (events_of (transferETHConversation env c) w) \<longrightarrow>
     last (events_of (transferETHConversation env c) w) \<in> failure_reports"
  by (simp add: transferETHConversation_def sendTransaction_def waitFor_def monad_defs
      failure_reports_def split: option.splits sum.splits list.splits)

lemma transferSOL_no_throw:
  "db_error env = None \<Longrightarrow>
   (\<forall>m ms. inbox w = m # ms \<longrightarrow> (\<exists>k. PublicKey env (text_of m) = Inr k)) \<Longrightarrow>
   result_of (transferSOLConversation env c) w \<noteq> Thrown e"
  by (auto simp add: transferSOLConversation_def sendSolanaTransaction_def
      PublicKey_isOnCurve_def waitFor_def monad_defs
      split: option.splits sum.splits list.splits)

lemma transferSOL_reports:
  "db_error env = None \<Longrightarrow>
   (\<forall>m ms. inbox w = m # ms \<longrightarrow> (\<exists>k. PublicKey env (text_of m) = Inr k)) \<Longrightarrow>
   ConsoleError \<in> set (events_of (transferSOLConversation env c) w) \<longrightarrow>
     last (events_of (transferSOLConversation env c) w) \<in> failure_reports"
  by (auto simp add: transferSOLConversation_def sendSolanaTransaction_def
      PublicKey_isOnCurve_def waitFor_def monad_defs failure_reports_def
      split: option.splits sum.splits list.splits)

lemma store_failure_propagates:
  "db_error env = Some e \<Longrightarrow> truthy (ctx_telegramId c) = Some tid \<Longrightarrow>
    result_of (handleStart env c) w = Thrown e \<and>
    events_of (handleStart env c) w = [FindOne tid] \<and>
    result_of (handleWallet env c) w = Thrown e \<and>
    events_of (handleWallet env c) w = [FindOne tid] \<and>
    result_of (transferETHConversation env c) w = Thrown e \<and>
    events_of (transferETHConversation env c) w = [FindOne tid] \<and>
    result_of (transferSOLConversation env c) w = Thrown e \<and>
    events_of (transferSOLConversation env c) w = [FindOne tid]"
  by (simp add: handleStart_def handleWallet_def transferETHConversation_def
      transferSOLConversation_def monad_defs)

lemma handleWallet_logs:
  "list_ex (raised env) (events_of (handleWallet env c) w) \<longrightarrow>
     ConsoleError \<in> set (events_of (handleWallet env c) w)"
  by (simp add: handleWallet_def monad_defs split: option.splits sum.splits)

lemma handleStart_logs:
  "db_error env = None \<Longrightarrow> list_ex (raised env) (events_of (handleStart env c) w) \<longrightarrow>
     ConsoleError \<in> set (events_of (handleStart env c) w)"
  unfolding events_of_def [of "handleStart env c"]
  apply (simp add: start_defs case_returned handleWallet_returns handleWallet_trace
      split: option.splits sum.splits)
  apply (auto dest: handleWallet_logs [THEN mp])
  done

lemma transferETH_logs:
  "list_ex (raised env) (events_of (transferETHConversation env c) w) \<longrightarrow>
     ConsoleError \<in> set (events_of (transferETHConversation env c) w)"
  by (simp add: transferETHConversation_def sendTransaction_def waitFor_def monad_defs
      split: option.splits sum.splits list.splits)

lemma transferSOL_logs:
  "list_ex (raised env) (events_of (transferSOLConversation env c) w) \<longrightarrow>
     ConsoleError \<in> set (events_of (transferSOLConversation env c) w)"
  by (auto simp add: transferSOLConversation_def sendSolanaTransaction_def
      PublicKey_isOnCurve_def waitFor_def monad_defs
      split: option.splits sum.splits list.splits)

lemma handleStart_save_failure:
  assumes "truthy (ctx_telegramId c) = Some tid" and "db_error env = None"
    and "store w tid = None"
    and "createWalletPreGen env EVM (tid @ ''@'' @ DOMAIN env) = Inr a"
    and "createWalletPreGen env SOLANA (tid @ ''@'' @ DOMAIN env) = Inr b"
    and "truthy (wallet_address a) = Some ea" and "truthy (wallet_address b) = Some sa"
    and "save_error env
           \<lparr>telegramId = tid,
            username = (case truthy (ctx_username c) of Some n \<Rightarrow> n | None \<Rightarrow> tid),
            evmUserShare = share a, evmAddress = ea,
            solanaUserShare = share b, solanaAddress = sa\<rparr> = Some e"
  shows "result_of (handleStart env c) w = Returned () \<and>
         store_after (handleStart env c) w = store w \<and>
         events_of (handleStart env c) w =
           [FindOne tid, Reply GeneratingWallets,
            CreateWalletPreGen EVM (tid @ ''@'' @ DOMAIN env),
            CreateWalletPreGen SOLANA (tid @ ''@'' @ DOMAIN env),
            ConsoleError, Reply ErrorCreatingAccount]"
  using assms
  by (simp add: handleStart_def generateAccount_def generateSolanaAccount_def save_def
      monad_defs)

text \<open>
  C8, as stated, fails: the store lookup at the head of every handler is outside any
  \<^verbatim>\<open>try\<close>. With the store unreachable the start command rejects with the store's
  error after the lookup, and nothing is sent to the user.
\<close>

theorem handleStart_store_failure_propagates:
  "db_error env_db_down = Some (Error ''store unreachable'') \<and>
   result_of (handleStart env_db_down ctx_alice) world0 = Thrown (Error ''store unreachable'') \<and>
   events_of (handleStart env_db_down ctx_alice) world0 = [FindOne ''1001'']"
  using alice_id
  by (simp add: handleStart_def monad_defs sample_defs)

text \<open>
  C8, amended. While the store lookup answers, no error of the signer, of the store
  write, of the RPC clients or of the transaction executor leaves the start command, the
  wallet command or the ETH conversation. Whenever a call of the signer, of an RPC client
  or of the executor that the handler made raised an error, the handler logged it with
  \<^verbatim>\<open>console.error\<close>, and the last thing it did was to send a failure message to the
  user; a failed store write in the start command is logged and reported in the same way
  and leaves the collection as it was. The same holds for the SOL conversation when the
  destination text parses as a key. An error of the store lookup itself is not caught:
  every handler rejects with it, having done nothing but the lookup.
\<close>

theorem handlers_catch_and_report:
  "(db_error env = None \<longrightarrow>
      (\<forall>e. result_of (handleStart env c) w \<noteq> Thrown e) \<and>
      (\<forall>e. result_of (handleWallet env c) w \<noteq> Thrown e) \<and>
      (\<forall>e. result_of (transferETHConversation env c) w \<noteq> Thrown e) \<and>
      (ConsoleError \<in> set (events_of (handleStart env c) w) \<longrightarrow>
         last (events_of (handleStart env c) w) \<in> failure_reports) \<and>
      (ConsoleError \<in> set (events_of (handleWallet env c) w) \<longrightarrow>
         last (events_of (handleWallet env c) w) \<in> failure_reports) \<and>
      (ConsoleError \<in> set (events_of (transferETHConversation env c) w) \<longrightarrow>
         last (events_of (transferETHConversation env c) w) \<in> failure_reports) \<and>
      (list_ex (raised env) (events_of (handleStart env c) w) \<longrightarrow>
         ConsoleError \<in> set (events_of (handleStart env c) w) \<and>
         last (events_of (handleStart env c) w) \<in> failure_reports) \<and>
      (list_ex (raised env) (events_of (handleWallet env c) w) \<longrightarrow>
         ConsoleError \<in> set (events_of (handleWallet env c) w) \<and>
         last (events_of (handleWallet env c) w) \<in> failure_reports) \<and>
      (list_ex (raised env) (events_of (transferETHConversation env c) w) \<longrightarrow>
         ConsoleError \<in> set (events_of (transferETHConversation env c) w) \<and>
         last (events_of (transferETHConversation env c) w) \<in> failure_reports))
   \<and> (db_error env = None \<and>
       (\<forall>m ms. inbox w = m # ms \<longrightarrow> (\<exists>k. PublicKey env (text_of m) = Inr k)) \<longrightarrow>
      (\<forall>e. result_of (transferSOLConversation env c) w \<noteq> Thrown e) \<and>
      (ConsoleError \<in> set (events_of (transferSOLConversation env c) w) \<longrightarrow>
         last (events_of (transferSOLConversation env c) w) \<in> failure_reports) \<and>
      (list_ex (raised env) (events_of (transferSOLConversation env c) w) \<longrightarrow>
         ConsoleError \<in> set (events_of (transferSOLConversation env c) w) \<and>
         last (events_of (transferSOLConversation env c) w) \<in> failure_reports))
   \<and> (\<forall>tid a b ea sa e.
        truthy (ctx_telegramId c) = Some tid \<and> db_error env = None \<and> store w tid = None \<and>
        createWalletPreGen env EVM (tid @ ''@'' @ DOMAIN env) = Inr a \<and>
        createWalletPreGen env SOLANA (tid @ ''@'' @ DOMAIN env) = Inr b \<and>
        truthy (wallet_address a) = Some ea \<and> truthy (wallet_address b) = Some sa \<and>
        save_error env
          \<lparr>telegramId = tid,
           username = (case truthy (ctx_username c) of Some n \<Rightarrow> n | None \<Rightarrow> tid),
           evmUserShare = share a, evmAddress = ea,
           solanaUserShare = share b, solanaAddress = sa\<rparr> = Some e \<longrightarrow>
        result_of (handleStart env c) w = Returned () \<and>
        store_after (handleStart env c) w = store w \<and>
        events_of (handleStart env c) w =
          [FindOne tid, Reply GeneratingWallets,
           CreateWalletPreGen EVM (tid @ ''@'' @ DOMAIN env),
           CreateWalletPreGen SOLANA (tid @ ''@'' @ DOMAIN env),
           ConsoleError, Reply ErrorCreatingAccount])
   \<and> (\<forall>e tid. db_error env = Some e \<and> truthy (ctx_telegramId c) = Some tid \<longrightarrow>
        result_of (handleStart env c) w = Thrown e \<and>
        result_of (handleWallet env c) w = Thrown e \<and>
        result_of (transferETHConversation env c) w = Thrown e \<and>
        result_of (transferSOLConversation env c) w = Thrown e)"
proof -
  have p1: "db_error env = None \<longrightarrow>
      (\<forall>e. result_of (handleStart env c) w \<noteq> Thrown e) \<and>
      (\<forall>e. result_of (handleWallet env c) w \<noteq> Thrown e) \<and>
      (\<forall>e. result_of (transferETHConversation env c) w \<noteq> Thrown e)"
    using handleStart_no_throw [of env c w] transferETH_no_throw [of env c w]
      handleWallet_returns [of env c w]
    by (auto simp add: result_of_def)
  have p2: "db_error env = None \<longrightarrow>
      (ConsoleError \<in> set (events_of (handleStart env c) w) \<longrightarrow>
         last (events_of (handleStart env c) w) \<in> failure_reports) \<and>
      (ConsoleError \<in> set (events_of (handleWallet env c) w) \<longrightarrow>
         last (events_of (handleWallet env c) w) \<in> failure_reports) \<and>
      (ConsoleError \<in> set (events_of (transferETHConversation env c) w) \<longrightarrow>
         last (events_of (transferETHConversation env c) w) \<in> failure_reports)"
    using handleStart_reports [of env c w] handleWallet_reports [of env c w]
      transferETH_reports [of env c w]
    by blast
  have p3: "db_error env = None \<longrightarrow>
      (list_ex (raised env) (events_of (handleStart env c) w) \<longrightarrow>
         ConsoleError \<in> set (events_of (handleStart env c) w)) \<and>
      (list_ex (raised env) (events_of (handleWallet env c) w) \<longrightarrow>
         ConsoleError \<in> set (events_of (handleWallet env c) w)) \<and>
      (list_ex (raised env) (events_of (transferETHConversation env c) w) \<longrightarrow>
         ConsoleError \<in> set (events_of (transferETHConversation env c) w))"
    using handleStart_logs [of env c w] handleWallet_logs [of env c w]
      transferETH_logs [of env c w]
    by blast
  have p4: "db_error env = None \<and>
       (\<forall>m ms. inbox w = m # ms \<longrightarrow> (\<exists>k. PublicKey env (text_of m) = Inr k)) \<longrightarrow>
      (\<forall>e. result_of (transferSOLConversation env c) w \<noteq> Thrown e) \<and>
      (ConsoleError \<in> set (events_of (transferSOLConversation env c) w) \<longrightarrow>
         last (events_of (transferSOLConversation env c) w) \<in> failure_reports) \<and>
      (list_ex (raised env) (events_of (transferSOLConversation env c) w) \<longrightarrow>
         ConsoleError \<in> set (events_of (transferSOLConversation env c) w))"
    using transferSOL_no_throw [of env w c] transferSOL_reports [of env w c]
      transferSOL_logs [of env c w]
    by blast
  have p5: "\<forall>tid a b ea sa e.
        truthy (ctx_telegramId c) = Some tid \<and> db_error env = None \<and> store w tid = None \<and>
        createWalletPreGen env EVM (tid @ ''@'' @ DOMAIN env) = Inr a \<and>
        createWalletPreGen env SOLANA (tid @ ''@'' @ DOMAIN env) = Inr b \<and>
        truthy (wallet_address a) = Some ea \<and> truthy (wallet_address b) = Some sa \<and>
        save_error env
          \<lparr>telegramId = tid,
           username = (case truthy (ctx_username c) of Some n \<Rightarrow> n | None \<Rightarrow> tid),
           evmUserShare = share a, evmAddress = ea,
           solanaUserShare = share b, solanaAddress = sa\<rparr> = Some e \<longrightarrow>
        result_of (handleStart env c) w = Returned () \<and>
        store_after (handleStart env c) w = store w \<and>
        events_of (handleStart env c) w =
          [FindOne tid, Reply GeneratingWallets,
           CreateWalletPreGen EVM (tid @ ''@'' @ DOMAIN env),
           CreateWalletPreGen SOLANA (tid @ ''@'' @ DOMAIN env),
           ConsoleError, Reply ErrorCreatingAccount]"
    using handleStart_save_failure [of c _ env w] by blast
  have p6: "\<forall>e tid. db_error env = Some e \<and> truthy (ctx_telegramId c) = Some tid \<longrightarrow>
        result_of (handleStart env c) w = Thrown e \<and>
        result_of (handleWallet env c) w = Thrown e \<and>
        result_of (transferETHConversation env c) w = Thrown e \<and>
        result_of (transferSOLConversation env c) w = Thrown e"
    using store_failure_propagates [of env _ c _ w] by blast
  from p1 p2 p3 p4 p5 p6 show ?thesis by blast
qed

theorem handlers_catch_and_report_witness:
  "db_error env_sol_signer_down = None \<and>
   createWalletPreGen env_sol_signer_down SOLANA ''1001@example.com'' =
     Inl (Error ''signer unavailable'') \<and>
   (\<forall>e. result_of (handleStart env_sol_signer_down ctx_alice) world0 \<noteq> Thrown e) \<and>
   list_ex (raised env_sol_signer_down)
     (events_of (handleStart env_sol_signer_down ctx_alice) world0) \<and>
   ConsoleError \<in> set (events_of (handleStart env_sol_signer_down ctx_alice) world0) \<and>
   last (events_of (handleStart env_sol_signer_down ctx_alice) world0) \<in> failure_reports \<and>
   db_error env_db_down = Some (Error ''store unreachable'') \<and>
   truthy (ctx_telegramId ctx_alice) = Some ''1001'' \<and>
   result_of (handleWallet env_db_down ctx_alice) world_alice = Thrown (Error ''store unreachable'') \<and>
   db_error env_ok = None \<and>
   inbox world_send_sol = [msg bob_sol, msg ''0.5''] \<and>
   PublicKey env_ok (text_of (msg bob_sol)) = Inr (PubKey 2) \<and>
   (\<forall>e. result_of (transferSOLConversation env_ok ctx_alice) world_send_sol \<noteq> Thrown e) \<and>
   db_error env_viem_down = None \<and>
   viemSendTransaction env_viem_down ''evm-share'' bob_evm ''0.5'' =
     Inl (Error ''insufficient funds'') \<and>
   list_ex (raised env_viem_down)
     (events_of (transferETHConversation env_viem_down ctx_alice) world_send_eth) \<and>
   ConsoleError \<in> set (events_of (transferETHConversation env_viem_down ctx_alice) world_send_eth) \<and>
   last (events_of (transferETHConversation env_viem_down ctx_alice) world_send_eth)
     \<in> failure_reports \<and>
   db_error env_save_down = None \<and> store world0 ''1001'' = None \<and>
   save_error env_save_down alice = Some (Error ''validation failed'') \<and>
   result_of (handleStart env_save_down ctx_alice) world0 = Returned () \<and>
   store_after (handleStart env_save_down ctx_alice) world0 = store world0 \<and>
   events_of (handleStart env_save_down ctx_alice) world0 =
     [FindOne ''1001'', Reply GeneratingWallets,
      CreateWalletPreGen EVM ''1001@example.com'',
      CreateWalletPreGen SOLANA ''1001@example.com'',
      ConsoleError, Reply ErrorCreatingAccount]"
proof -
  have s1: "db_error env_ok = None" by (simp add: sample_defs)
  have s2: "\<forall>m ms. inbox world_send_sol = m # ms \<longrightarrow> (\<exists>k. PublicKey env_ok (text_of m) = Inr k)"
    by (simp add: sample_defs)
  have s3: "inbox world_send_sol = [msg bob_sol, msg ''0.5'']" by (simp add: sample_defs)
  have s4: "PublicKey env_ok (text_of (msg bob_sol)) = Inr (PubKey 2)" by (simp add: sample_defs)
  have h1: "db_error env_sol_signer_down = None" by (simp add: sample_defs)
  have h2: "createWalletPreGen env_sol_signer_down SOLANA ''1001@example.com'' =
      Inl (Error ''signer unavailable'')"
    by (simp add: sample_defs)
  have ev: "events_of (handleStart env_sol_signer_down ctx_alice) world0 =
      [FindOne ''1001'', Reply GeneratingWallets,
       CreateWalletPreGen EVM ''1001@example.com'',
       CreateWalletPreGen SOLANA ''1001@example.com'', ConsoleError,
       Reply ErrorCreatingAccount]"
    using alice_id
    by (simp add: handleStart_def generateAccount_def generateSolanaAccount_def monad_defs
        sample_defs)
  have h3: "list_ex (raised env_sol_signer_down)
      (events_of (handleStart env_sol_signer_down ctx_alice) world0)"
    unfolding ev using h2 by simp
  have h4: "db_error env_db_down = Some (Error ''store unreachable'')" by (simp add: sample_defs)
  have v1: "db_error env_viem_down = None" by (simp add: sample_defs)
  have v2: "viemSendTransaction env_viem_down ''evm-share'' bob_evm ''0.5'' =
      Inl (Error ''insufficient funds'')"
    by (simp add: sample_defs)
  have e6: "isAddress env_viem_down bob_evm"
    using bob_evm_valid by (simp add: sample_defs)
  have p: "parseFloat env_viem_down ''0.5'' = Finite (1 / 2)" by (simp add: sample_defs)
  have ve: "events_of (transferETHConversation env_viem_down ctx_alice) world_send_eth =
      [FindOne ''1001'', Reply ProvideEthAddress, Reply HowMuchEth,
       Reply (SendingEth ''0.5'' bob_evm),
       ViemSendTransaction ''evm-share'' bob_evm ''0.5'', ConsoleError,
       EditMessageText FailedToSendTransaction]"
    using alice_id e6 p v1 v2
    by (simp add: transferETHConversation_def sendTransaction_def waitFor_def monad_defs
        world_send_eth_def world_alice_def msg_def alice_def)
  have v3: "list_ex (raised env_viem_down)
      (events_of (transferETHConversation env_viem_down ctx_alice) world_send_eth)"
    unfolding ve using v2 by simp
  have d1: "db_error env_save_down = None" by (simp add: sample_defs)
  have d2: "createWalletPreGen env_save_down EVM (''1001'' @ ''@'' @ DOMAIN env_save_down) =
      Inr \<lparr>wallet_address = Some (evmAddress alice), share = ''evm-share''\<rparr>"
    "createWalletPreGen env_save_down SOLANA (''1001'' @ ''@'' @ DOMAIN env_save_down) =
      Inr \<lparr>wallet_address = Some (solanaAddress alice), share = ''sol-share''\<rparr>"
    by (simp_all add: sample_defs)
  have d3: "truthy (wallet_address \<lparr>wallet_address = Some (evmAddress alice), share = ''evm-share''\<rparr>)
      = Some (evmAddress alice)"
    "truthy (wallet_address \<lparr>wallet_address = Some (solanaAddress alice), share = ''sol-share''\<rparr>)
      = Some (solanaAddress alice)"
    by (simp_all add: truthy_def alice_def)
  have d4: "save_error env_save_down u = Some (Error ''validation failed'')" for u
    by (simp add: sample_defs)
  have d5: "''1001'' @ ''@'' @ DOMAIN env_save_down = ''1001@example.com''"
    by (simp add: sample_defs)
  have a1: "(\<forall>e. result_of (handleStart env_sol_signer_down ctx_alice) world0 \<noteq> Thrown e) \<and>
      ConsoleError \<in> set (events_of (handleStart env_sol_signer_down ctx_alice) world0) \<and>
      last (events_of (handleStart env_sol_signer_down ctx_alice) world0) \<in> failure_reports"
    using handlers_catch_and_report [of env_sol_signer_down ctx_alice world0] h1 h3 by blast
  have a2: "result_of (handleWallet env_db_down ctx_alice) world_alice
      = Thrown (Error ''store unreachable'')"
    using handlers_catch_and_report [of env_db_down ctx_alice world_alice] h4 alice_id by blast
  have a3: "\<forall>e. result_of (transferSOLConversation env_ok ctx_alice) world_send_sol \<noteq> Thrown e"
    using handlers_catch_and_report [of env_ok ctx_alice world_send_sol] s1 s2 by blast
  have a4: "ConsoleError
        \<in> set (events_of (transferETHConversation env_viem_down ctx_alice) world_send_eth) \<and>
      last (events_of (transferETHConversation env_viem_down ctx_alice) world_send_eth)
        \<in> failure_reports"
    using handlers_catch_and_report [of env_viem_down ctx_alice world_send_eth] v1 v3 by blast
  have a5: "result_of (handleStart env_save_down ctx_alice) world0 = Returned () \<and>
      store_after (handleStart env_save_down ctx_alice) world0 = store world0 \<and>
      events_of (handleStart env_save_down ctx_alice) world0 =
        [FindOne ''1001'', Reply GeneratingWallets,
         CreateWalletPreGen EVM (''1001'' @ ''@'' @ DOMAIN env_save_down),
         CreateWalletPreGen SOLANA (''1001'' @ ''@'' @ DOMAIN env_save_down),
         ConsoleError, Reply ErrorCreatingAccount]"
    using handlers_catch_and_report [of env_save_down ctx_alice world0, THEN conjunct2,
        THEN conjunct2, THEN conjunct1, rule_format,
        of "''1001''" "\<lparr>wallet_address = Some (evmAddress alice), share = ''evm-share''\<rparr>"
           "\<lparr>wallet_address = Some (solanaAddress alice), share = ''sol-share''\<rparr>"
           "evmAddress alice" "solanaAddress alice" "Error ''validation failed''"]
      alice_id d1 alice_unknown d2 d3 d4
    by blast
  from a1 a2 a3 a4 a5 h1 h2 h3 h4 s1 s3 s4 alice_id v1 v2 v3 d1 d4 [of alice] alice_unknown
  show ?thesis unfolding d5 by blast
qed

subsection \<open>Units of the displayed balances\<close>

lemma bitlen_pow_bounds:
  assumes "0 < a"
  shows "(2::rat) powi (bitlen (int a) - 1) \<le> of_nat a" "of_nat a < (2::rat) powi (bitlen (int a))"
proof -
  have pos: "0 < int a" using assms by simp
  from bitlen_bounds [OF pos]
  have lo: "2 ^ nat (bitlen (int a) - 1) \<le> int a" and hi: "int a < 2 ^ nat (bitlen (int a))"
    by auto
  have ge1: "1 \<le> bitlen (int a)"
    using pos by (simp add: bitlen_alt_def)
  have "(of_int (2 ^ nat (bitlen (int a) - 1)) :: rat) \<le> of_int (int a)"
    using lo by (simp only: of_int_le_iff)
  then show "(2::rat) powi (bitlen (int a) - 1) \<le> of_nat a"
    using ge1 by (simp add: power_int_def)
  have "(of_int (int a) :: rat) < of_int (2 ^ nat (bitlen (int a)))"
    using hi by (simp only: of_int_less_iff)
  then show "of_nat a < (2::rat) powi (bitlen (int a))"
    using ge1 by (simp add: power_int_def)
qed

lemma binade_bounds:
  assumes "0 < a" "0 < b"
  shows "(2::rat) powi (binade a b) \<le> of_nat a / of_nat b"
    and "of_nat a / of_nat b < (2::rat) powi (binade a b + 1)"
proof -
  let ?la = "bitlen (int a)" and ?lb = "bitlen (int b)"
  let ?d = "?la - ?lb"
  have bpos: "(0::rat) < of_nat b" using assms by simp
  have apos: "(0::rat) < of_nat a" using assms by simp
  note A = bitlen_pow_bounds [OF assms(1)] and B = bitlen_pow_bounds [OF assms(2)]
  have up: "of_nat a < of_nat b * (2::rat) powi (?d + 1)"
  proof -
    have "(2::rat) powi ?la = 2 powi (?lb - 1) * 2 powi (?d + 1)"
      by (simp flip: power_int_add)
    also have "\<dots> \<le> of_nat b * 2 powi (?d + 1)"
      using B(1) by (simp add: mult_right_mono)
    finally show ?thesis using A(2) by linarith
  qed
  have lo: "of_nat b * (2::rat) powi (?d - 1) \<le> of_nat a"
  proof -
    have "of_nat b * (2::rat) powi (?d - 1) \<le> 2 powi ?lb * 2 powi (?d - 1)"
      using B(2) by (simp add: mult_right_mono)
    also have "\<dots> = 2 powi (?la - 1)"
      by (simp flip: power_int_add)
    finally show ?thesis using A(1) by linarith
  qed
  show "(2::rat) powi (binade a b) \<le> of_nat a / of_nat b"
    using lo bpos by (auto simp add: binade_def Let_def pos_le_divide_eq mult.commute)
  show "of_nat a / of_nat b < (2::rat) powi (binade a b + 1)"
    using up bpos by (auto simp add: binade_def Let_def pos_divide_less_eq mult.commute not_le)
qed

lemma round_half_even_close: "\<bar>of_int (round_half_even y) - y\<bar> \<le> 1 / 2"
proof -
  have "of_int \<lfloor>y\<rfloor> \<le> y" "y < of_int \<lfloor>y\<rfloor> + 1" by linarith+
  then show ?thesis
    by (auto simp add: round_half_even_def Let_def abs_le_iff)
qed

lemma js_div_close:
  assumes "0 < a" "0 < b"
  shows "\<exists>x. js_div a b = Finite x \<and> 0 \<le> x \<and>
           \<bar>x - of_nat a / of_nat b\<bar> \<le> of_nat a / of_nat b * 2 powi (- 53)"
proof -
  let ?q = "of_nat a / of_nat b :: rat"
  let ?e = "binade a b"
  let ?y = "?q * 2 powi (52 - ?e)"
  let ?m = "round_half_even ?y"
  let ?x = "of_int ?m * (2::rat) powi (?e - 52)"
  have qpos: "0 < ?q" using assms by simp
  have eq: "js_div a b = Finite ?x"
    using assms by (simp add: js_div_def Let_def)
  have scale: "?y * 2 powi (?e - 52) = ?q"
    by (simp add: mult.assoc flip: power_int_add)
  have "?x - ?q = (of_int ?m - ?y) * 2 powi (?e - 52)"
    using scale by (simp add: algebra_simps)
  then have "\<bar>?x - ?q\<bar> = \<bar>of_int ?m - ?y\<bar> * 2 powi (?e - 52)"
    by (simp add: abs_mult)
  also have "\<dots> \<le> 1 / 2 * 2 powi (?e - 52)"
    using round_half_even_close [of ?y] by (simp add: mult_right_mono)
  also have "\<dots> = 2 powi ?e * 2 powi (- 53)"
  proof -
    have "(2::rat) powi (?e - 52) = 2 powi ?e * 2 powi (- 52)"
      using power_int_add [of "2::rat" ?e "- 52"] by simp
    then show ?thesis by simp
  qed
  also have "\<dots> \<le> ?q * 2 powi (- 53)"
    using binade_bounds(1) [OF assms] by (simp add: mult_right_mono)
  finally have close: "\<bar>?x - ?q\<bar> \<le> ?q * 2 powi (- 53)" .
  have "(2::rat) powi (- 53) \<le> 1" by (simp add: power_int_minus)
  then have "?q * 2 powi (- 53) \<le> ?q" using qpos by (simp add: mult_left_le)
  with close have "0 \<le> ?x" by (simp add: abs_le_iff)
  with eq close show ?thesis by blast
qed

lemma toFixed_nearest:
  assumes x0: "0 \<le> (x::rat)" and close: "\<bar>x - of_nat L / 10 ^ 9\<bar> < 1 / 10 ^ 9"
  shows "\<bar>of_nat (nat \<lfloor>x * 10 ^ 4 + 1 / 2\<rfloor>) / 10 ^ 4 - (of_nat L / 10 ^ 9 :: rat)\<bar> \<le> 1 / (2 * 10 ^ 4)"
proof -
  define n where "n = \<lfloor>x * 10 ^ 4 + 1 / 2\<rfloor>"
  have n0: "0 \<le> n" using x0 by (simp add: n_def)
  have "of_int n \<le> x * 10 ^ 4 + 1 / 2 \<and> x * 10 ^ 4 + 1 / 2 < of_int (n + 1)"
    unfolding n_def by (rule floor_correct)
  then have f1: "of_int n \<le> x * 10000 + 1 / 2" and f2: "x * 10000 + 1 / 2 < of_int n + 1"
    by simp_all
  from close have c1: "x * 1000000000 < of_nat L + 1" and c2: "of_nat L - 1 < x * 1000000000"
    by (simp_all add: abs_less_iff field_simps)
  have up: "(of_int (200000 * n - 100002) :: rat) < of_int (2 * int L)"
    using f1 c1 by simp
  have lo: "(of_int (2 * int L) :: rat) < of_int (200000 * n + 100002)"
    using f2 c2 by simp
  from up have up': "200000 * n - 100002 < 2 * int L" by (simp only: of_int_less_iff)
  from lo have lo': "2 * int L < 200000 * n + 100002" by (simp only: of_int_less_iff)
  from up' lo' have "100000 * n - 50000 \<le> int L" "int L \<le> 100000 * n + 50000"
    by linarith+
  then have "(of_int (100000 * n - 50000) :: rat) \<le> of_int (int L)"
    "(of_int (int L) :: rat) \<le> of_int (100000 * n + 50000)"
    by (simp_all only: of_int_le_iff)
  then have r: "100000 * of_int n - 50000 \<le> (of_nat L :: rat)"
    "(of_nat L :: rat) \<le> 100000 * of_int n + 50000"
    by simp_all
  have "\<bar>of_int n / 10000 - (of_nat L / 1000000000 :: rat)\<bar> \<le> 1 / 20000"
    using r by linarith
  then have "\<bar>of_int n / 10 ^ 4 - (of_nat L / 10 ^ 9 :: rat)\<bar> \<le> 1 / (2 * 10 ^ 4)"
    by simp
  moreover have "(of_nat (nat n) :: rat) = of_int n"
    using n0 by simp
  ultimately show ?thesis unfolding n_def by simp
qed

lemma digit_char_props:
  assumes "d < 10"
  shows "digit_value (digit_char d) = d" and "is_digit (digit_char d)"
proof -
  from assms have "d \<in> {0, 1, 2, 3, 4, 5, 6, 7, 8, 9}" by auto
  then show "digit_value (digit_char d) = d" and "is_digit (digit_char d)"
    by (auto simp add: digit_char_def digit_value_def is_digit_def)
qed

lemma digits_value_snoc: "digits_value (s @ [ch]) = 10 * digits_value s + digit_value ch"
  by (simp add: digits_value_def)

lemma digits_props:
  "digits_value (digits n) = n \<and> list_all is_digit (digits n) \<and> digits n \<noteq> []"
proof (induction n rule: digits.induct)
  case (1 n)
  show ?case
  proof (cases "n < 10")
    case True
    then show ?thesis
      by (subst (1 2 3) digits.simps) (simp add: digit_char_props digits_value_def)
  next
    case False
    have m: "n mod 10 < 10" by simp
    from False 1 have IH: "digits_value (digits (n div 10)) = n div 10"
      "list_all is_digit (digits (n div 10))" by simp_all
    from False have unfold: "digits n = digits (n div 10) @ [digit_char (n mod 10)]"
      by (subst digits.simps) simp
    show ?thesis
      unfolding unfold using IH m
      by (simp add: digits_value_snoc digit_char_props)
  qed
qed

lemma digits_value_zeros: "digits_value (replicate k CHR ''0'' @ s) = digits_value s"
proof -
  have "foldl (\<lambda>acc ch. 10 * acc + digit_value ch) 0 (replicate k CHR ''0'') = 0"
    by (induction k) (simp_all add: digit_value_def)
  then show ?thesis by (simp add: digits_value_def)
qed

lemma point_before_4:
  "\<exists>ip fp. point_before 4 n = ip @ ''.'' @ fp \<and> ip \<noteq> [] \<and> length fp = 4 \<and>
     list_all is_digit (ip @ fp) \<and> digits_value (ip @ fp) = n"
proof -
  define m where "m = replicate (5 - length (digits n)) CHR ''0'' @ digits n"
  have len: "5 \<le> length m" by (simp add: m_def)
  have val: "digits_value m = n"
    unfolding m_def by (simp add: digits_value_zeros digits_props)
  have zeros: "list_all is_digit (replicate k CHR ''0'')" for k
    by (induction k) (simp_all add: is_digit_def)
  have "list_all is_digit (digits n)" using digits_props [of n] by blast
  then have dig: "list_all is_digit m"
    unfolding m_def using zeros by simp
  have pb: "point_before 4 n = take (length m - 4) m @ ''.'' @ drop (length m - 4) m"
    by (simp add: point_before_def m_def Let_def)
  have "take (length m - 4) m \<noteq> []" using len by auto
  moreover have "length (drop (length m - 4) m) = 4" using len by simp
  moreover have "take (length m - 4) m @ drop (length m - 4) m = m" by simp
  ultimately have "point_before 4 n = take (length m - 4) m @ ''.'' @ drop (length m - 4) m \<and>
      take (length m - 4) m \<noteq> [] \<and> length (drop (length m - 4) m) = 4 \<and>
      list_all is_digit (take (length m - 4) m @ drop (length m - 4) m) \<and>
      digits_value (take (length m - 4) m @ drop (length m - 4) m) = n"
    using pb val dig by simp
  then show ?thesis by blast
qed

lemma sol_display:
  assumes "lamports < 2 ^ 53"
  shows "\<exists>n. toFixed 4 (js_div lamports (10 ^ 9)) = Some (point_before 4 n) \<and>
           \<bar>of_nat n / 10 ^ 4 - (of_nat lamports / 10 ^ 9 :: rat)\<bar> \<le> 1 / (2 * 10 ^ 4)"
proof -
  let ?q = "of_nat lamports / 10 ^ 9 :: rat"
  have "\<exists>x. js_div lamports (10 ^ 9) = Finite x \<and> 0 \<le> x \<and> \<bar>x - ?q\<bar> < 1 / 10 ^ 9"
  proof (cases "lamports = 0")
    case True
    then show ?thesis by (simp add: js_div_def)
  next
    case False
    then have pos: "0 < lamports" by simp
    have b: "0 < (10 ^ 9 :: nat)" by simp
    from js_div_close [OF pos b] obtain x where
      x: "js_div lamports (10 ^ 9) = Finite x" "0 \<le> x" "\<bar>x - ?q\<bar> \<le> ?q * 2 powi (- 53)"
      by auto
    have "(of_nat lamports :: rat) < of_nat (2 ^ 53)"
      using assms by (simp only: of_nat_less_iff)
    then have "?q * 2 powi (- 53) < 1 / 10 ^ 9"
      by (simp add: power_int_minus field_simps)
    with x show ?thesis by force
  qed
  then obtain x where x: "js_div lamports (10 ^ 9) = Finite x" "0 \<le> x" "\<bar>x - ?q\<bar> < 1 / 10 ^ 9"
    by blast
  have "(of_nat lamports :: rat) < of_nat (2 ^ 53)"
    using assms by (simp only: of_nat_less_iff)
  then have "?q < 10 ^ 21 - 1" by (simp add: field_simps)
  moreover have "(1 / 10 ^ 9 :: rat) \<le> 1" by simp
  ultimately have small: "\<bar>x\<bar> < 10 ^ 21" using x(2,3) by linarith
  have "toFixed 4 (js_div lamports (10 ^ 9)) = Some (point_before 4 (nat \<lfloor>x * 10 ^ 4 + 1 / 2\<rfloor>))"
    using x(1,2) small by (simp add: toFixed_def Let_def)
  with toFixed_nearest [OF x(2,3)] show ?thesis by blast
qed

text \<open>
  C9. When both balance queries answer, the wallet display shows the EVM balance as the
  wei amount divided by \<open>10 ^ 18\<close>, and the Solana balance as a text with exactly four
  digits after the decimal point. For every lamport amount that a number holds exactly
  (below \<open>2 ^ 53\<close>) that text denotes a four-decimal value within half a unit of the
  fourth decimal of the exact quotient of the lamports by \<open>10 ^ 9\<close>: the division is
  applied to the untruncated amount and the rounding comes last.
\<close>

theorem handleWallet_balance_units:
  assumes "truthy (ctx_telegramId c) = Some tid" and "db_error env = None"
    and "store w tid = Some u"
    and "getBalance env (evmAddress u) = Inr wei"
    and "PublicKey env (solanaAddress u) = Inr k"
    and "solGetBalance env k = Inr lamports"
    and "lamports < 2 ^ 53"
  shows "\<exists>ip fp.
           events_of (handleWallet env c) w =
             [FindOne tid, Reply (YourWallets (evmAddress u) (solanaAddress u)),
              ClientGetBalance (evmAddress u),
              Reply (EthereumBalance (of_nat wei / 10 ^ 18)),
              ConnectionGetBalance k,
              Reply (SolanaBalance (Some (ip @ ''.'' @ fp)))] \<and>
           ip \<noteq> [] \<and> length fp = 4 \<and> list_all is_digit (ip @ fp) \<and>
           \<bar>of_nat (digits_value (ip @ fp)) / 10 ^ 4 - (of_nat lamports / 10 ^ 9 :: rat)\<bar>
             \<le> 1 / (2 * 10 ^ 4)"
proof -
  from sol_display [OF assms(7)] obtain n where
    n: "toFixed 4 (js_div lamports (10 ^ 9)) = Some (point_before 4 n)"
       "\<bar>of_nat n / 10 ^ 4 - (of_nat lamports / 10 ^ 9 :: rat)\<bar> \<le> 1 / (2 * 10 ^ 4)"
    by blast
  from point_before_4 [of n] obtain ip fp where
    p: "point_before 4 n = ip @ ''.'' @ fp" "ip \<noteq> []" "length fp = 4"
       "list_all is_digit (ip @ fp)" "digits_value (ip @ fp) = n"
    by blast
  have "events_of (handleWallet env c) w =
          [FindOne tid, Reply (YourWallets (evmAddress u) (solanaAddress u)),
           ClientGetBalance (evmAddress u),
           Reply (EthereumBalance (of_nat wei / 10 ^ 18)),
           ConnectionGetBalance k,
           Reply (SolanaBalance (toFixed 4 (js_div lamports (10 ^ 9))))]"
    using assms(1-6) by (simp add: handleWallet_def formatEther_def monad_defs)
  with n p show ?thesis by auto
qed

theorem handleWallet_balance_units_witness:
  "truthy (ctx_telegramId ctx_alice) = Some ''1001'' \<and> db_error env_ok = None \<and>
   store world_alice ''1001'' = Some alice \<and>
   getBalance env_ok (evmAddress alice) = Inr 1500000000000000000 \<and>
   PublicKey env_ok (solanaAddress alice) = Inr (PubKey 1) \<and>
   solGetBalance env_ok (PubKey 1) = Inr 1234567890 \<and> (1234567890 :: nat) < 2 ^ 53 \<and>
   (\<exists>ip fp.
      events_of (handleWallet env_ok ctx_alice) world_alice =
        [FindOne ''1001'', Reply (YourWallets (evmAddress alice) (solanaAddress alice)),
         ClientGetBalance (evmAddress alice),
         Reply (EthereumBalance (of_nat 1500000000000000000 / 10 ^ 18)),
         ConnectionGetBalance (PubKey 1),
         Reply (SolanaBalance (Some (ip @ ''.'' @ fp)))] \<and>
      ip \<noteq> [] \<and> length fp = 4 \<and> list_all is_digit (ip @ fp) \<and>
      \<bar>of_nat (digits_value (ip @ fp)) / 10 ^ 4 - (of_nat 1234567890 / 10 ^ 9 :: rat)\<bar>
        \<le> 1 / (2 * 10 ^ 4))"
proof -
  have h2: "db_error env_ok = None" by (simp add: sample_defs)
  have h4: "getBalance env_ok (evmAddress alice) = Inr 1500000000000000000"
    by (simp add: sample_defs)
  have h5: "PublicKey env_ok (solanaAddress alice) = Inr (PubKey 1)" by (simp add: sample_defs)
  have h6: "solGetBalance env_ok (PubKey 1) = Inr 1234567890" by (simp add: sample_defs)
  have h7: "(1234567890 :: nat) < 2 ^ 53" by simp
  from handleWallet_balance_units [OF alice_id h2 alice_registered h4 h5 h6 h7]
    alice_id h2 alice_registered h4 h5 h6 h7
  show ?thesis by blast
qed

text \<open>
  Two evaluations of the display. The second is an amount exactly half-way between two
  four-decimal values: the double nearest to 0.00015 lies below it, so the display rounds
  down, inside the bound above.
\<close>

lemma sample_sol_display: "toFixed 4 (js_div 1234567890 (10 ^ 9)) = Some ''1.2346''"
  by code_simp

lemma tie_follows_the_double: "toFixed 4 (js_div 150000 (10 ^ 9)) = Some ''0.0001''"
  by code_simp

subsection \<open>EVM address syntax\<close>

lemma strip_Times_Class:
  "strip (Times n (Class cs)) s =
     (if n \<le> length s \<and> set (take n s) \<subseteq> set cs then Some (drop n s) else None)"
  by (induction n arbitrary: s) (auto split: list.splits)

lemma hex_class_digits: "ch \<in> set hex_class \<longleftrightarrow> is_hex_digit ch"
  by (auto simp add: hex_class_def is_hex_digit_def)

lemma isValidEthereumAddress_iff:
  "isValidEthereumAddress address \<longleftrightarrow>
     length address = 42 \<and> take 2 address = ''0x'' \<and> list_all is_hex_digit (drop 2 address)"
proof (cases address)
  case Nil
  then show ?thesis by (simp add: isValidEthereumAddress_def regex_test_def)
next
  case (Cons c1 rest1)
  show ?thesis
  proof (cases rest1)
    case Nil
    with Cons show ?thesis by (simp add: isValidEthereumAddress_def regex_test_def)
  next
    case (Cons c2 rest)
    with \<open>address = c1 # rest1\<close> have a: "address = c1 # c2 # rest" by simp
    show ?thesis
      unfolding a
      by (auto simp add: isValidEthereumAddress_def regex_test_def strip_Times_Class
          list_all_iff hex_class_digits subset_iff)
  qed
qed


lemma startsWith_0x: "startsWith s ''0x'' \<longleftrightarrow> take 2 s = ''0x''"
  by (simp add: startsWith_def numeral_2_eq_2)

lemma conversations_address_step:
  assumes "truthy (ctx_telegramId c) = Some tid" and "db_error env = None"
    and "inbox w = [a]" and "store w tid = Some u0"
    and "fold apply_dbop (meanwhile a) (store w) tid = Some u1"
  shows "(Reply HowMuchEth \<in> set (events_of (run_conversation (transferConversation env c)) w)
            \<longleftrightarrow> length (text_of a) = 42 \<and> take 2 (text_of a) = ''0x'')"
    and "(Reply InvalidEthereumAddress
            \<in> set (events_of (run_conversation (transferConversation env c)) w)
            \<longleftrightarrow> \<not> (length (text_of a) = 42 \<and> take 2 (text_of a) = ''0x''))"
    and "(Reply HowMuchEth \<in> set (events_of (run_conversation (transferETHConversation env c)) w)
            \<longleftrightarrow> isAddress env (text_of a))"
    and "(Reply InvalidEthereumAddress
            \<in> set (events_of (run_conversation (transferETHConversation env c)) w)
            \<longleftrightarrow> \<not> isAddress env (text_of a))"
  using assms
  by (auto simp add: transferConversation_def transferETHConversation_def startsWith_0x
      run_defs engine_ends)

text \<open>
  C4, as stated, fails: the earlier send conversation checks the destination text for the
  \<open>0x\<close> prefix and the length 42 only. A text of that shape whose other forty
  characters are not hexadecimal digits, which the fixed pattern rejects, is accepted and
  the conversation goes on to ask for the amount.
\<close>

theorem transferConversation_accepts_non_hex:
  "\<not> is_hex_digit CHR ''z'' \<and> CHR ''z'' \<in> set non_hex_evm \<and>
   \<not> isValidEthereumAddress non_hex_evm \<and>
   result_of (run_conversation (transferConversation env_ok ctx_alice)) world_legacy_non_hex
     = Suspended \<and>
   events_of (run_conversation (transferConversation env_ok ctx_alice)) world_legacy_non_hex =
     [FindOne ''1001'', Reply ProvideFundsAddress, FindOne ''1001'', Reply HowMuchEth]"
proof -
  have "\<not> isValidEthereumAddress non_hex_evm"
    using isValidEthereumAddress_iff [of non_hex_evm]
    by (simp add: non_hex_evm_def is_hex_digit_def)
  moreover have "\<not> is_hex_digit CHR ''z''" "CHR ''z'' \<in> set non_hex_evm"
    by (simp_all add: non_hex_evm_def is_hex_digit_def)
  moreover have "result_of (run_conversation (transferConversation env_ok ctx_alice)) world_legacy_non_hex
     = Suspended \<and>
   events_of (run_conversation (transferConversation env_ok ctx_alice)) world_legacy_non_hex =
     [FindOne ''1001'', Reply ProvideFundsAddress, FindOne ''1001'', Reply HowMuchEth]"
    using alice_id
    by (simp add: transferConversation_def startsWith_0x run_defs sample_defs)
  ultimately show ?thesis by blast
qed

text \<open>
  C4, amended. \<^verbatim>\<open>isValidEthereumAddress\<close> accepts a text exactly when it is 42
  characters long, starts with \<open>0x\<close> and continues with hexadecimal digits of either
  case only. The conversations do not call it. For a registered sender, the earlier send
  conversation accepts the destination text (asks for the amount) exactly when the text is
  42 characters long and starts with \<open>0x\<close>, and answers with the invalid-address
  message otherwise; the ETH conversation accepts it exactly when the \<^verbatim>\<open>isAddress\<close>
  of the client library does, and answers with the invalid-address message otherwise.
\<close>

theorem evm_address_checks:
  "(isValidEthereumAddress address \<longleftrightarrow>
      length address = 42 \<and> take 2 address = ''0x'' \<and> list_all is_hex_digit (drop 2 address))
   \<and> (truthy (ctx_telegramId c) = Some tid \<and> db_error env = None \<and> inbox w = [a] \<and>
       store w tid = Some u0 \<and> fold apply_dbop (meanwhile a) (store w) tid = Some u1 \<longrightarrow>
       (Reply HowMuchEth \<in> set (events_of (run_conversation (transferConversation env c)) w)
          \<longleftrightarrow> length (text_of a) = 42 \<and> take 2 (text_of a) = ''0x'') \<and>
       (Reply InvalidEthereumAddress
          \<in> set (events_of (run_conversation (transferConversation env c)) w)
          \<longleftrightarrow> \<not> (length (text_of a) = 42 \<and> take 2 (text_of a) = ''0x'')) \<and>
       (Reply HowMuchEth \<in> set (events_of (run_conversation (transferETHConversation env c)) w)
          \<longleftrightarrow> isAddress env (text_of a)) \<and>
       (Reply InvalidEthereumAddress
          \<in> set (events_of (run_conversation (transferETHConversation env c)) w)
          \<longleftrightarrow> \<not> isAddress env (text_of a)))"
  using isValidEthereumAddress_iff [of address] conversations_address_step [of c tid env w a u0 u1]
  by blast

theorem evm_address_checks_witness:
  "isValidEthereumAddress bob_evm \<and>
   \<not> isValidEthereumAddress ''de709f2102306220921060314715629080e2fb77'' \<and>
   \<not> isValidEthereumAddress ''0xde709f21'' \<and>
   \<not> isValidEthereumAddress non_hex_evm \<and>
   truthy (ctx_telegramId ctx_alice) = Some ''1001'' \<and> db_error env_ok = None \<and>
   inbox world_legacy_non_hex = [msg non_hex_evm] \<and>
   store world_legacy_non_hex ''1001'' = Some alice \<and>
   fold apply_dbop (meanwhile (msg non_hex_evm)) (store world_legacy_non_hex) ''1001'' = Some alice \<and>
   length non_hex_evm = 42 \<and> take 2 non_hex_evm = ''0x'' \<and>
   Reply HowMuchEth
     \<in> set (events_of (run_conversation (transferConversation env_ok ctx_alice)) world_legacy_non_hex) \<and>
   \<not> isAddress env_ok non_hex_evm \<and>
   Reply InvalidEthereumAddress
     \<in> set (events_of (run_conversation (transferETHConversation env_ok ctx_alice)) world_legacy_non_hex)"
proof -
  have h2: "db_error env_ok = None" by (simp add: sample_defs)
  have h3: "inbox world_legacy_non_hex = [msg non_hex_evm]" by (simp add: sample_defs)
  have h4: "store world_legacy_non_hex ''1001'' = Some alice" by (simp add: sample_defs)
  have h5: "fold apply_dbop (meanwhile (msg non_hex_evm)) (store world_legacy_non_hex) ''1001''
      = Some alice"
    by (simp add: sample_defs)
  have h6: "length (text_of (msg non_hex_evm)) = 42" "take 2 (text_of (msg non_hex_evm)) = ''0x''"
    by (simp_all add: non_hex_evm_def msg_def)
  have v: "\<not> isValidEthereumAddress non_hex_evm"
    using evm_address_checks [of non_hex_evm]
    by (simp add: non_hex_evm_def is_hex_digit_def)
  have h7: "\<not> isAddress env_ok (text_of (msg non_hex_evm))"
    using v by (simp add: env_ok_def msg_def)
  have w1: "isValidEthereumAddress bob_evm"
    "\<not> isValidEthereumAddress ''de709f2102306220921060314715629080e2fb77''"
    "\<not> isValidEthereumAddress ''0xde709f21''"
    using evm_address_checks [of bob_evm]
      evm_address_checks [of "''de709f2102306220921060314715629080e2fb77''"]
      evm_address_checks [of "''0xde709f21''"]
    by (simp_all add: bob_evm_def is_hex_digit_def)
  have t: "text_of (msg non_hex_evm) = non_hex_evm" by (simp add: msg_def)
  from evm_address_checks [of bob_evm ctx_alice "''1001''" env_ok world_legacy_non_hex
      "msg non_hex_evm" alice alice]
    alice_id h2 h3 h4 h5 h6 h7 v w1
  show ?thesis unfolding t by blast
qed

end
